theory Spec2Isabelle
  imports Complex_Main "HOL-Library.Word"
begin

unbundle bit_operations_syntax

section \<open>Shared data\<close>

text \<open>Python \<^verbatim>\<open>bytes\<close> values are lists of octets; Python integers are unbounded.\<close>

type_synonym bytes = "8 word list"

section \<open>The SPV verifier (lib/verifier.py)\<close>

subsection \<open>Library functions the verifier imports\<close>

text \<open>
  \<^verbatim>\<open>Hash\<close>, \<^verbatim>\<open>hash_decode\<close>, \<^verbatim>\<open>hash_encode\<close>, \<^verbatim>\<open>bh2u\<close> and
  \<^verbatim>\<open>Transaction.deserialize\<close> come from modules that are not among the sources
  (\<^verbatim>\<open>.bitcoin\<close>, \<^verbatim>\<open>.util\<close>, \<^verbatim>\<open>.transaction\<close>), so they are parameters of the model.
  \<open>hash_decode\<close> may raise on a malformed hex string (\<open>None\<close>);
  \<open>deserializes raw\<close> says that \<^verbatim>\<open>Transaction(raw).deserialize()\<close> returns without
  raising.
\<close>

record spv_lib =
  Hash :: "bytes \<Rightarrow> bytes"
  hash_decode :: "string \<Rightarrow> bytes option"
  hash_encode :: "bytes \<Rightarrow> string"
  bh2u :: "bytes \<Rightarrow> string"
  deserializes :: "string \<Rightarrow> bool"

datatype spv_error = InnerNodeOfSpvProofIsValidTx | HashDecodeError

subsection \<open>hash_merkle_root and _raise_if_valid_tx\<close>

text \<open>
  \<^verbatim>\<open>_raise_if_valid_tx\<close>: the \<^verbatim>\<open>try\<close> swallows every exception of
  \<^verbatim>\<open>deserialize\<close>; the \<^verbatim>\<open>else\<close> branch raises when there was none.
\<close>

definition raise_if_valid_tx :: "spv_lib \<Rightarrow> string \<Rightarrow> spv_error + unit" where
  "raise_if_valid_tx L raw_tx =
     (if deserializes L raw_tx then Inl InnerNodeOfSpvProofIsValidTx else Inr ())"

text \<open>
  The body of \<^verbatim>\<open>for i in range(len(merkle_s))\<close>, from index \<open>i\<close> on, with the
  remaining items of \<^verbatim>\<open>merkle_s\<close> and the current \<open>h\<close>. The test
  \<^verbatim>\<open>(pos >> i) & 1\<close> is Python truthiness of an integer.
\<close>

fun merkle_loop :: "spv_lib \<Rightarrow> int \<Rightarrow> nat \<Rightarrow> string list \<Rightarrow> bytes \<Rightarrow> spv_error + bytes" where
  "merkle_loop L pos i [] h = Inr h"
| "merkle_loop L pos i (item # rest) h =
     (case hash_decode L item of
        None \<Rightarrow> Inl HashDecodeError
      | Some d \<Rightarrow>
          (let h' = (if (drop_bit i pos) AND 1 \<noteq> 0 then Hash L (d @ h) else Hash L (h @ d))
           in case raise_if_valid_tx L (bh2u L h') of
                Inl e \<Rightarrow> Inl e
              | Inr _ \<Rightarrow> merkle_loop L pos (Suc i) rest h'))"

definition hash_merkle_root :: "spv_lib \<Rightarrow> string list \<Rightarrow> string \<Rightarrow> int \<Rightarrow> spv_error + string" where
  "hash_merkle_root L merkle_s target_hash pos =
     (case hash_decode L target_hash of
        None \<Rightarrow> Inl HashDecodeError
      | Some h \<Rightarrow>
          (case merkle_loop L pos 0 merkle_s h of
             Inl e \<Rightarrow> Inl e
           | Inr h' \<Rightarrow> Inr (hash_encode L h')))"

subsection \<open>The fold as the specification words it\<close>

text \<open>
  Bit \<open>i\<close> of \<open>position\<close> selects whether sibling \<open>i\<close> is prepended or appended;
  \<open>merkle_fold L pos sibs h k\<close> is the hash after \<open>k\<close> such steps.
\<close>

definition fold_step :: "spv_lib \<Rightarrow> int \<Rightarrow> nat \<Rightarrow> bytes \<Rightarrow> bytes \<Rightarrow> bytes" where
  "fold_step L pos i h sib = (if bit pos i then Hash L (sib @ h) else Hash L (h @ sib))"

fun merkle_fold :: "spv_lib \<Rightarrow> int \<Rightarrow> bytes list \<Rightarrow> bytes \<Rightarrow> nat \<Rightarrow> bytes" where
  "merkle_fold L pos sibs h 0 = h"
| "merkle_fold L pos sibs h (Suc k) = fold_step L pos k (merkle_fold L pos sibs h k) (sibs ! k)"

subsection \<open>The verifier's state, run, verify_merkle, remove_spv_proof_for_tx\<close>

text \<open>
  The fields of \<^verbatim>\<open>SPV\<close> that the methods change, and the calls made on the network
  and the wallet, recorded in order. A blockchain object is identified by a number.
\<close>

datatype network_call =
    FetchMissingHeadersAround int
  | GetMerkleForTransaction string int

datatype wallet_call =
    AddVerifiedTx string int int int
  | SaveVerifiedTx

record spv_state =
  merkle_roots :: "string \<rightharpoonup> string"
  requested_merkle :: "string set"
  blockchain :: "nat option"
  network_calls :: "network_call list"
  wallet_calls :: "wallet_call list"

record header =
  h_merkle_root :: string
  h_timestamp :: int

text \<open>\<^verbatim>\<open>__init__\<close>: both containers start empty.\<close>

definition spv_init :: "nat option \<Rightarrow> spv_state" where
  "spv_init bc = \<lparr> merkle_roots = Map.empty, requested_merkle = {}, blockchain = bc,
                   network_calls = [], wallet_calls = [] \<rparr>"

definition remove_spv_proof_for_tx :: "spv_state \<Rightarrow> string \<Rightarrow> spv_state" where
  "remove_spv_proof_for_tx s tx_hash =
     s\<lparr> merkle_roots := (merkle_roots s)(tx_hash := None),
        requested_merkle := requested_merkle s - {tx_hash} \<rparr>"

text \<open>
  \<^verbatim>\<open>undo_verifications\<close>: \<open>tx_hashes\<close> is what the wallet's
  \<^verbatim>\<open>undo_verifications\<close> returned.
\<close>

definition undo_verifications :: "string list \<Rightarrow> spv_state \<Rightarrow> spv_state" where
  "undo_verifications tx_hashes s = foldl remove_spv_proof_for_tx s tx_hashes"

text \<open>What \<^verbatim>\<open>run\<close> reads from the network, the wallet and the header store.\<close>

record run_env =
  is_connected :: bool
  net_blockchain :: "nat option"
  local_height :: int
  unverified :: "(string \<times> int) list"
  read_header :: "int \<Rightarrow> header option"
  is_before_last_checkpoint :: "int \<Rightarrow> bool"
  undo_tx_hashes :: "string list"

definition run_step :: "run_env \<Rightarrow> spv_state \<Rightarrow> string \<times> int \<Rightarrow> spv_state" where
  "run_step E s item =
     (case item of (tx_hash, tx_height) \<Rightarrow>
        if tx_height \<le> 0 \<or> tx_height > local_height E then s
        else (case read_header E tx_height of
                None \<Rightarrow>
                  if is_before_last_checkpoint E tx_height
                  then s\<lparr> network_calls := network_calls s @ [FetchMissingHeadersAround tx_height] \<rparr>
                  else s
              | Some hdr \<Rightarrow>
                  if tx_hash \<notin> requested_merkle s \<and> tx_hash \<notin> dom (merkle_roots s)
                  then s\<lparr> network_calls := network_calls s @ [GetMerkleForTransaction tx_hash tx_height],
                          requested_merkle := insert tx_hash (requested_merkle s) \<rparr>
                  else s))"

definition run :: "run_env \<Rightarrow> spv_state \<Rightarrow> spv_state" where
  "run E s =
     (if \<not> is_connected E then s
      else if net_blockchain E = None then s
      else
        (let s1 = foldl (run_step E) s (unverified E)
         in if net_blockchain E \<noteq> blockchain s1
            then undo_verifications (undo_tx_hashes E) (s1\<lparr> blockchain := net_blockchain E \<rparr>)
            else s1))"

text \<open>
  The merkle response \<^verbatim>\<open>{params: [tx_hash], result: {merkle, block_height, pos}}\<close>
  and what \<^verbatim>\<open>verify_merkle\<close> reads besides it.
\<close>

record response =
  r_error :: bool
  r_tx_hash :: string
  r_merkle :: "string list"
  r_block_height :: int
  r_pos :: int

record verify_env =
  wallet_verifier_is_None :: bool
  v_read_header :: "int \<Rightarrow> header option"
  wallet_is_up_to_date :: bool

text \<open>Which \<^verbatim>\<open>return\<close> of \<^verbatim>\<open>verify_merkle\<close> was taken, or the exception that left it.\<close>

datatype verify_outcome =
    Killed
  | ReceivedError
  | InnerNodeLooksLikeTx
  | MissingHeader
  | MerkleRootMismatch
  | Verified
  | Raised spv_error

definition is_up_to_date :: "spv_state \<Rightarrow> bool" where
  "is_up_to_date s = (requested_merkle s = {})"

definition verify_merkle :: "spv_lib \<Rightarrow> verify_env \<Rightarrow> spv_state \<Rightarrow> response \<Rightarrow> verify_outcome \<times> spv_state" where
  "verify_merkle L E s resp =
     (if wallet_verifier_is_None E then (Killed, s)
      else if r_error resp then (ReceivedError, s)
      else
        (case hash_merkle_root L (r_merkle resp) (r_tx_hash resp) (r_pos resp) of
           Inl InnerNodeOfSpvProofIsValidTx \<Rightarrow> (InnerNodeLooksLikeTx, s)
         | Inl e \<Rightarrow> (Raised e, s)
         | Inr merkle_root \<Rightarrow>
             (case v_read_header E (r_block_height resp) of
                None \<Rightarrow> (MissingHeader, s)
              | Some hdr \<Rightarrow>
                  if h_merkle_root hdr \<noteq> merkle_root then (MerkleRootMismatch, s)
                  else
                    (let s1 = s\<lparr> merkle_roots := (merkle_roots s)(r_tx_hash resp \<mapsto> merkle_root) \<rparr>;
                         s2 = s1\<lparr> requested_merkle := requested_merkle s1 - {r_tx_hash resp} \<rparr>;
                         s3 = s2\<lparr> wallet_calls := wallet_calls s2 @
                                   [AddVerifiedTx (r_tx_hash resp) (r_block_height resp)
                                      (h_timestamp hdr) (r_pos resp)] \<rparr>
                     in if is_up_to_date s3 \<and> wallet_is_up_to_date E
                        then (Verified, s3\<lparr> wallet_calls := wallet_calls s3 @ [SaveVerifiedTx] \<rparr>)
                        else (Verified, s3)))))"

text \<open>The invariant of the data model: no transaction id is both requested and verified.\<close>

definition spv_inv :: "spv_state \<Rightarrow> bool" where
  "spv_inv s = (requested_merkle s \<inter> dom (merkle_roots s) = {})"

section \<open>Submarine swaps (electrum/submarine_swaps.py)\<close>

text \<open>
  A leading underscore of a source name is written \<open>u_\<close>:
  \<^verbatim>\<open>_get_recv_amount\<close> is \<open>u_get_recv_amount\<close>.
\<close>

subsection \<open>Python built-ins\<close>

text \<open>\<^verbatim>\<open>bytes.hex()\<close>, \<^verbatim>\<open>int.from_bytes(b, byteorder='little')\<close> and
  \<^verbatim>\<open>int(d)\<close> on a \<^verbatim>\<open>Decimal\<close>, which truncates towards zero.\<close>

definition hex_digit :: "nat \<Rightarrow> char" where
  "hex_digit n = ''0123456789abcdef'' ! n"

definition hex :: "bytes \<Rightarrow> string" where
  "hex b = concat (map (\<lambda>w. [hex_digit (unat w div 16), hex_digit (unat w mod 16)]) b)"

fun int_from_bytes_le :: "bytes \<Rightarrow> int" where
  "int_from_bytes_le [] = 0"
| "int_from_bytes_le (b # bs) = uint b + 256 * int_from_bytes_le bs"

definition py_int :: "rat \<Rightarrow> int" where
  "py_int d = (if 0 \<le> d then \<lfloor>d\<rfloor> else \<lceil>d\<rceil>)"

subsection \<open>Scripts and templates\<close>

text \<open>
  The opcodes the two templates name; \<open>OP_OTHER\<close> stands for every other opcode. A parsed
  script is a list of tokens: an opcode, or the bytes a push opcode pushes.
\<close>

datatype opcode =
    OP_HASH160 | OP_EQUAL | OP_IF | OP_ELSE | OP_CHECKLOCKTIMEVERIFY | OP_DROP | OP_ENDIF
  | OP_CHECKSIG | OP_SIZE | OP_EQUALVERIFY | OP_OTHER nat

datatype token = Op opcode | Push bytes

text \<open>
  A template item is an opcode or a push-data slot; the slot's argument is the predicate on
  the length of the pushed data, \<open>None\<close> for \<^verbatim>\<open>OPPushDataGeneric(None)\<close>.
\<close>

datatype template_item = TOp opcode | OPPushDataGeneric "(nat \<Rightarrow> bool) option"

text \<open>\<^verbatim>\<open>parsed_script[i][1]\<close>: the pushed bytes of a token, \<^verbatim>\<open>None\<close> for an opcode.\<close>

fun vch :: "token \<Rightarrow> bytes option" where
  "vch (Op _) = None"
| "vch (Push d) = Some d"

subsection \<open>Imported functions and constants\<close>

text \<open>
  Imported from modules that are not among the sources, and so parameters of the model:
  the hash functions, \<^verbatim>\<open>script_to_p2wsh\<close>, \<^verbatim>\<open>script_GetOp\<close> (\<open>None\<close> when it raises
  \<^verbatim>\<open>MalformedBitcoinScript\<close>), the template slot \<^verbatim>\<open>OPPushDataPubkey\<close>,
  \<^verbatim>\<open>tx.sign_txin\<close>, \<^verbatim>\<open>tx.txid()\<close>, \<^verbatim>\<open>ln_dummy_address()\<close> and the constants
  \<^verbatim>\<open>REDEEM_AFTER_DOUBLE_SPENT_DELAY\<close> and \<^verbatim>\<open>TX_HEIGHT_LOCAL\<close>.
\<close>

datatype TxOutpoint = TxOutpoint (txid: bytes) (out_idx: int)

datatype witness_item = WBytes bytes | WInt int

record PartialTxInput =
  prevout :: TxOutpoint
  value_sats :: int
  spent_height :: "int option"
  spent_txid :: "string option"
  block_height :: int
  script_sig :: "bytes option"
  witness_script :: "bytes option"
  witness :: "witness_item list option"

record PartialTxOutput =
  o_address :: string
  o_value :: int

record PartialTransaction =
  tx_inputs :: "PartialTxInput list"
  tx_outputs :: "PartialTxOutput list"
  tx_version :: int
  tx_locktime :: int
  tx_rbf :: bool

record swap_lib =
  sha256 :: "bytes \<Rightarrow> bytes"
  hash_160 :: "bytes \<Rightarrow> bytes"
  script_to_p2wsh :: "string \<Rightarrow> string"
  script_GetOp :: "bytes \<Rightarrow> token list option"
  OPPushDataPubkey :: template_item
  sign_txin :: "PartialTransaction \<Rightarrow> nat \<Rightarrow> bytes \<Rightarrow> bytes"
  tx_txid :: "PartialTransaction \<Rightarrow> string option"
  ln_dummy_address :: string
  REDEEM_AFTER_DOUBLE_SPENT_DELAY :: int
  TX_HEIGHT_LOCAL :: int

definition WITNESS_TEMPLATE_SWAP :: "swap_lib \<Rightarrow> template_item list" where
  "WITNESS_TEMPLATE_SWAP L =
     [ TOp OP_HASH160,
       OPPushDataGeneric (Some (\<lambda>x. x = 20)),
       TOp OP_EQUAL,
       TOp OP_IF,
       OPPushDataPubkey L,
       TOp OP_ELSE,
       OPPushDataGeneric None,
       TOp OP_CHECKLOCKTIMEVERIFY,
       TOp OP_DROP,
       OPPushDataPubkey L,
       TOp OP_ENDIF,
       TOp OP_CHECKSIG ]"

definition WITNESS_TEMPLATE_REVERSE_SWAP :: "swap_lib \<Rightarrow> template_item list" where
  "WITNESS_TEMPLATE_REVERSE_SWAP L =
     [ TOp OP_SIZE,
       OPPushDataGeneric None,
       TOp OP_EQUAL,
       TOp OP_IF,
       TOp OP_HASH160,
       OPPushDataGeneric (Some (\<lambda>x. x = 20)),
       TOp OP_EQUALVERIFY,
       OPPushDataPubkey L,
       TOp OP_ELSE,
       TOp OP_DROP,
       OPPushDataGeneric None,
       TOp OP_CHECKLOCKTIMEVERIFY,
       TOp OP_DROP,
       OPPushDataPubkey L,
       TOp OP_ENDIF,
       TOp OP_CHECKSIG ]"

text \<open>
  Modelled from the spec: \<^verbatim>\<open>match_script_against_template\<close> is imported from
  \<^verbatim>\<open>.transaction\<close>, which is not among the sources. The specification (4.1) has it
  parse the script into an ordered sequence of opcode-or-pushed-bytes tokens and test
  structural equality against the template, where a wildcard slot accepts any pushed value
  satisfying its optional length predicate. \<open>match_item\<close> is that test on one item.
\<close>

fun match_item :: "token \<Rightarrow> template_item \<Rightarrow> bool" where
  "match_item (Op c) (TOp c') = (c = c')"
| "match_item (Push d) (OPPushDataGeneric None) = True"
| "match_item (Push d) (OPPushDataGeneric (Some p)) = p (length d)"
| "match_item _ _ = False"

text \<open>
  Modelled from the spec: the structural equality of a parsed script and a template, item
  by item and of equal length (specification 4.1); the function is part of
  \<^verbatim>\<open>match_script_against_template\<close>, which is not among the sources.
\<close>

definition match_parsed_script :: "token list \<Rightarrow> template_item list \<Rightarrow> bool" where
  "match_parsed_script toks template = list_all2 match_item toks template"

text \<open>
  Modelled from the spec: \<^verbatim>\<open>match_script_against_template\<close> on a byte string (not
  among the sources) parses it with \<^verbatim>\<open>script_GetOp\<close> and matches the tokens; a
  script that does not parse does not match.
\<close>

definition match_script_against_template :: "swap_lib \<Rightarrow> bytes \<Rightarrow> template_item list \<Rightarrow> bool" where
  "match_script_against_template L script template =
     (case script_GetOp L script of
        None \<Rightarrow> False
      | Some toks \<Rightarrow> match_parsed_script toks template)"

subsection \<open>Fee calculation\<close>

text \<open>
  The fee schedule and limits of \<^verbatim>\<open>SwapManager\<close>, with what the calculation reads from
  outside: \<^verbatim>\<open>dust_threshold()\<close>, the claim fee \<^verbatim>\<open>config.estimate_fee(136, ...)\<close>,
  and the rounding that the \<^verbatim>\<open>Decimal\<close> context applies to the exact result of each
  arithmetic operation. \<open>percentage\<close> is the value of \<^verbatim>\<open>Decimal(self.percentage)\<close>.
\<close>

record swap_config =
  normal_fee :: int
  lockup_fee :: int
  percentage :: rat
  min_amount :: int
  max_amount :: int
  dust_threshold :: int
  claim_fee :: int
  decimal_round :: "rat \<Rightarrow> rat"

datatype fee_error = CalcInvertSanityCheckFailed | TypeError | DecimalDivisionError

definition check_invoice_amount :: "swap_config \<Rightarrow> rat \<Rightarrow> bool" where
  "check_invoice_amount C x = (x \<ge> of_int (min_amount C) \<and> x \<le> of_int (max_amount C))"

definition u_get_recv_amount :: "swap_config \<Rightarrow> int option \<Rightarrow> bool \<Rightarrow> fee_error + int option" where
  "u_get_recv_amount C send_amount is_rev =
     (case send_amount of
        None \<Rightarrow> Inr None
      | Some sa \<Rightarrow>
          (let rnd = decimal_round C;
               x = of_int sa;
               p = percentage C
           in if is_rev then
                (if \<not> check_invoice_amount C x then Inr None
                 else
                   (let percentage_fee = \<lceil>rnd (rnd (p * x) / 100)\<rceil>;
                        base_fee = lockup_fee C;
                        x1 = rnd (x - of_int (percentage_fee + base_fee));
                        x2 = \<lfloor>x1\<rfloor>
                    in if x2 < dust_threshold C then Inr None else Inr (Some x2)))
              else
                (let x1 = rnd (x - of_int (normal_fee C));
                     denom = rnd (100 + p)
                 in if denom = 0 then Inl DecimalDivisionError
                    else
                      (let percentage_fee = \<lceil>rnd (rnd (x1 * p) / denom)\<rceil>;
                           x2 = rnd (x1 - of_int percentage_fee)
                       in if \<not> check_invoice_amount C x2 then Inr None
                          else Inr (Some (py_int x2))))))"

definition u_get_send_amount :: "swap_config \<Rightarrow> int option \<Rightarrow> bool \<Rightarrow> fee_error + int option" where
  "u_get_send_amount C recv_amount is_rev =
     (case recv_amount of
        None \<Rightarrow> Inr None
      | Some ra \<Rightarrow>
          if ra = 0 then Inr None
          else
            (let rnd = decimal_round C;
                 x = of_int ra;
                 p = percentage C
             in if is_rev then
                  (let base_fee = lockup_fee C;
                       x1 = rnd (x + of_int base_fee);
                       denom = rnd (rnd (100 - p) / 100)
                   in if denom = 0 then Inl DecimalDivisionError
                      else
                        (let x2 = \<lceil>rnd (x1 / denom)\<rceil>
                         in if \<not> check_invoice_amount C (of_int x2) then Inr None
                            else Inr (Some x2)))
                else
                  (if \<not> check_invoice_amount C x then Inr None
                   else
                     (let percentage_fee = \<lceil>rnd (rnd (p * x) / 100)\<rceil>;
                          x1 = rnd (x + of_int (percentage_fee + normal_fee C))
                      in Inr (Some (py_int x1))))))"

text \<open>
  \<^verbatim>\<open>get_recv_amount\<close>: when the inverse is \<^verbatim>\<open>None\<close>, the subtraction
  \<^verbatim>\<open>send_amount - inverted_send_amount\<close> raises \<^verbatim>\<open>TypeError\<close>.
\<close>

definition get_recv_amount :: "swap_config \<Rightarrow> int option \<Rightarrow> bool \<Rightarrow> fee_error + int option" where
  "get_recv_amount C send_amount is_rev =
     (case u_get_recv_amount C send_amount is_rev of
        Inl e \<Rightarrow> Inl e
      | Inr None \<Rightarrow> Inr None
      | Inr (Some recv_amount) \<Rightarrow>
          (case u_get_send_amount C (Some recv_amount) is_rev of
             Inl e \<Rightarrow> Inl e
           | Inr inverted_send_amount \<Rightarrow>
               (case (send_amount, inverted_send_amount) of
                  (Some sa, Some isa) \<Rightarrow>
                    if \<bar>sa - isa\<bar> > 1 then Inl CalcInvertSanityCheckFailed
                    else if is_rev then Inr (Some (recv_amount - claim_fee C))
                    else Inr (Some recv_amount)
                | _ \<Rightarrow> Inl TypeError)))"






subsection \<open>Swap records and the manager's state\<close>

text \<open>
  \<^verbatim>\<open>SwapData\<close>; \<open>funding_prevout\<close> is the attribute \<^verbatim>\<open>_funding_prevout\<close>, which
  is not persisted and is \<^verbatim>\<open>None\<close> on a freshly built or loaded record. The property
  \<^verbatim>\<open>payment_hash\<close> is \<^verbatim>\<open>sha256(self.preimage)\<close>, cached; no method assigns
  \<^verbatim>\<open>preimage\<close>, so the cache always holds that value.
\<close>

record SwapData =
  is_reverse :: bool
  locktime :: int
  onchain_amount :: int
  lightning_amount :: int
  redeem_script :: bytes
  preimage :: bytes
  prepay_hash :: "bytes option"
  privkey :: bytes
  lockup_address :: string
  receive_address :: string
  funding_txid :: "string option"
  spending_txid :: "string option"
  is_redeemed :: bool
  funding_prevout :: "TxOutpoint option"

definition payment_hash :: "swap_lib \<Rightarrow> SwapData \<Rightarrow> bytes" where
  "payment_hash L swap = sha256 L (preimage swap)"

text \<open>
  Swap records are Python objects that the three dictionaries share and that
  \<^verbatim>\<open>_claim_swap\<close> mutates in place, so the state has a store of records addressed by
  reference, and the dictionaries hold references. \<open>callbacks\<close> is the watcher's table
  (\<^verbatim>\<open>add_callback\<close>, \<^verbatim>\<open>remove_callback\<close>); \<open>wallet_txs\<close> lists the transactions
  passed to \<^verbatim>\<open>wallet.adb.add_transaction\<close> and \<open>broadcasts\<close> those passed to
  \<^verbatim>\<open>network.broadcast_transaction\<close>, in order. The invoices that
  \<^verbatim>\<open>lnworker\<close> creates are its own bookkeeping and not part of this state.
\<close>

datatype broadcast_item =
    BroadcastTx PartialTransaction
  | BroadcastSpendingTx "string option"

record swap_manager =
  heap :: "nat \<Rightarrow> SwapData"
  next_ref :: nat
  swaps :: "string \<rightharpoonup> nat"
  swaps_by_funding_outpoint :: "TxOutpoint \<rightharpoonup> nat"
  swaps_by_lockup_address :: "string \<rightharpoonup> nat"
  callbacks :: "string \<rightharpoonup> nat"
  wallet_txs :: "PartialTransaction list"
  broadcasts :: "broadcast_item list"

datatype swap_error =
    BelowDustLimit
  | AssertionError
  | IndexError
  | ValueError
  | SwapTypeError
  | MalformedBitcoinScript
  | RequestFailed
  | WalletError
  | BroadcastFailed
  | CheckFailed string

text \<open>
  \<^verbatim>\<open>_add_or_reindex_swap\<close>. The test \<^verbatim>\<open>if swap._funding_prevout\<close> is Python
  truthiness: a \<^verbatim>\<open>TxOutpoint\<close> is a non-empty tuple, so it holds exactly when the
  attribute is not \<^verbatim>\<open>None\<close>.
\<close>

definition u_add_or_reindex_swap :: "swap_lib \<Rightarrow> swap_manager \<Rightarrow> nat \<Rightarrow> swap_manager" where
  "u_add_or_reindex_swap L M ref =
     (let swap = heap M ref;
          key = hex (payment_hash L swap);
          M1 = (if key \<notin> dom (swaps M) then M\<lparr> swaps := (swaps M)(key \<mapsto> ref) \<rparr> else M);
          M2 = (case funding_prevout swap of
                  Some outpoint \<Rightarrow>
                    M1\<lparr> swaps_by_funding_outpoint :=
                          (swaps_by_funding_outpoint M1)(outpoint \<mapsto> ref) \<rparr>
                | None \<Rightarrow> M1)
      in M2\<lparr> swaps_by_lockup_address :=
               (swaps_by_lockup_address M2)(lockup_address swap \<mapsto> ref) \<rparr>)"

definition add_lnwatcher_callback :: "swap_manager \<Rightarrow> nat \<Rightarrow> swap_manager" where
  "add_lnwatcher_callback M ref =
     M\<lparr> callbacks := (callbacks M)(lockup_address (heap M ref) \<mapsto> ref) \<rparr>"

subsection \<open>Claim and refund transactions\<close>

definition create_claim_tx :: "PartialTxInput \<Rightarrow> bytes \<Rightarrow> string \<Rightarrow> int \<Rightarrow> int \<Rightarrow> PartialTransaction" where
  "create_claim_tx txin witness_scr address amount_sat lock_time =
     (let txin1 = txin\<lparr> script_sig := Some [], witness_script := Some witness_scr \<rparr>;
          txout = \<lparr> o_address = address, o_value = amount_sat \<rparr>
      in \<lparr> tx_inputs = [txin1], tx_outputs = [txout], tx_version = 2,
           tx_locktime = lock_time, tx_rbf = True \<rparr>)"

text \<open>
  \<^verbatim>\<open>sign_tx\<close>; the witness is kept as the list that \<^verbatim>\<open>construct_witness\<close> encodes,
  with \<open>WInt 0\<close> in the preimage slot of a refund.
\<close>

definition sign_tx :: "swap_lib \<Rightarrow> PartialTransaction \<Rightarrow> SwapData \<Rightarrow> swap_error + PartialTransaction" where
  "sign_tx L tx swap =
     (let pre = (if is_reverse swap then WBytes (preimage swap) else WInt 0);
          witness_scr = redeem_script swap
      in case tx_inputs tx of
           [] \<Rightarrow> Inl IndexError
         | txin # others \<Rightarrow>
             if length (tx_inputs tx) \<noteq> 1 then Inl AssertionError
             else if Some (hex (txid (prevout txin))) \<noteq> funding_txid swap then Inl AssertionError
             else
               (let txin1 = txin\<lparr> script_sig := Some [], witness_script := Some witness_scr \<rparr>;
                    tx1 = tx\<lparr> tx_inputs := txin1 # others \<rparr>;
                    sig = sign_txin L tx1 0 (privkey swap);
                    txin2 = txin1\<lparr> witness := Some [WBytes sig, pre, WBytes witness_scr] \<rparr>
                in Inr (tx1\<lparr> tx_inputs := txin2 # others \<rparr>)))"

definition u_get_claim_fee :: "swap_config \<Rightarrow> int" where
  "u_get_claim_fee C = claim_fee C"

definition u_create_and_sign_claim_tx ::
    "swap_lib \<Rightarrow> swap_config \<Rightarrow> PartialTxInput \<Rightarrow> SwapData \<Rightarrow> swap_error + PartialTransaction" where
  "u_create_and_sign_claim_tx L C txin swap =
     (let amount_sat = value_sats txin - u_get_claim_fee C
      in if amount_sat < dust_threshold C then Inl BelowDustLimit
         else
           (let lock_time = (if is_reverse swap then 0 else locktime swap);
                tx = create_claim_tx txin (redeem_script swap) (receive_address swap)
                       amount_sat lock_time
            in sign_tx L tx swap))"

subsection \<open>The claim watcher\<close>

text \<open>
  What one invocation of \<^verbatim>\<open>_claim_swap\<close> reads: whether the address database is up
  to date, the local height, the outputs at an address
  (\<^verbatim>\<open>get_addr_outputs(addr).values()\<close>, in iteration order), the configuration key
  \<^verbatim>\<open>allow_instant_swaps\<close>, and whether broadcasting the transaction with a given id
  raises.
\<close>

record claim_env =
  adb_is_up_to_date :: bool
  cs_local_height :: int
  addr_outputs :: "string \<Rightarrow> PartialTxInput list"
  allow_instant_swaps :: bool
  broadcast_raises :: "string option \<Rightarrow> bool"

text \<open>How one iteration of the loop over the outputs ends.\<close>

datatype loop_exit = Continue | Return | Raise swap_error

definition claim_step ::
    "swap_lib \<Rightarrow> swap_config \<Rightarrow> claim_env \<Rightarrow> int \<Rightarrow> int \<Rightarrow> nat \<Rightarrow> PartialTxInput \<Rightarrow> swap_manager
       \<Rightarrow> loop_exit \<times> swap_manager" where
  "claim_step L C E current_height delta ref txin M =
     (let swap = heap M ref
      in if is_reverse swap \<and> value_sats txin < onchain_amount swap then (Continue, M)
         else
           (let M1 = M\<lparr> heap := (heap M)(ref := swap\<lparr> funding_txid := Some (hex (txid (prevout txin))),
                                                     funding_prevout := Some (prevout txin) \<rparr>) \<rparr>;
                M2 = u_add_or_reindex_swap L M1 ref
            in case spent_height txin of
                 Some sh \<Rightarrow>
                   (let M3 = M2\<lparr> heap := (heap M2)(ref := (heap M2 ref)\<lparr> spending_txid := spent_txid txin \<rparr>) \<rparr>
                    in if sh > 0 then
                         (if current_height - sh > REDEEM_AFTER_DOUBLE_SPENT_DELAY L
                          then (Continue,
                                M3\<lparr> callbacks := (callbacks M3)(lockup_address (heap M3 ref) := None),
                                    heap := (heap M3)(ref := (heap M3 ref)\<lparr> is_redeemed := True \<rparr>) \<rparr>)
                          else (Continue, M3))
                       else if sh = TX_HEIGHT_LOCAL L then
                         (if block_height txin > 0 \<or> allow_instant_swaps E then
                            (if broadcast_raises E (spent_txid txin) then (Raise BroadcastFailed, M3)
                             else (Continue,
                                   M3\<lparr> broadcasts := broadcasts M3 @ [BroadcastSpendingTx (spent_txid txin)] \<rparr>))
                          else (Continue, M3))
                       else (Continue, M3))
               | None \<Rightarrow>
                   if \<not> is_reverse (heap M2 ref) \<and> delta < 0 then (Return, M2)
                   else
                     (case u_create_and_sign_claim_tx L C txin (heap M2 ref) of
                        Inl BelowDustLimit \<Rightarrow> (Continue, M2)
                      | Inl e \<Rightarrow> (Raise e, M2)
                      | Inr tx \<Rightarrow>
                          (Continue,
                           M2\<lparr> wallet_txs := wallet_txs M2 @ [tx],
                               heap := (heap M2)(ref := (heap M2 ref)\<lparr> spending_txid := tx_txid L tx \<rparr>) \<rparr>))))"

fun claim_loop ::
    "swap_lib \<Rightarrow> swap_config \<Rightarrow> claim_env \<Rightarrow> int \<Rightarrow> int \<Rightarrow> nat \<Rightarrow> PartialTxInput list \<Rightarrow> swap_manager
       \<Rightarrow> swap_error option \<times> swap_manager" where
  "claim_loop L C E current_height delta ref [] M = (None, M)"
| "claim_loop L C E current_height delta ref (txin # rest) M =
     (case claim_step L C E current_height delta ref txin M of
        (Continue, M') \<Rightarrow> claim_loop L C E current_height delta ref rest M'
      | (Return, M') \<Rightarrow> (None, M')
      | (Raise e, M') \<Rightarrow> (Some e, M'))"

definition u_claim_swap ::
    "swap_lib \<Rightarrow> swap_config \<Rightarrow> claim_env \<Rightarrow> nat \<Rightarrow> swap_manager \<Rightarrow> swap_error option \<times> swap_manager" where
  "u_claim_swap L C E ref M =
     (if \<not> adb_is_up_to_date E then (None, M)
      else
        (let current_height = cs_local_height E;
             delta = current_height - locktime (heap M ref);
             txos = addr_outputs E (lockup_address (heap M ref))
         in claim_loop L C E current_height delta ref txos M))"

text \<open>
  The watcher invokes the callback of a swap once per chain event: a sequence of
  invocations, each with what it reads at that moment. An exception ends one invocation
  (it is logged), not the watching.
\<close>

fun watch :: "swap_lib \<Rightarrow> swap_config \<Rightarrow> nat \<Rightarrow> claim_env list \<Rightarrow> swap_manager \<Rightarrow> swap_manager" where
  "watch L C ref [] M = M"
| "watch L C ref (E # Es) M = watch L C ref Es (snd (u_claim_swap L C E ref M))"

subsection \<open>Forward swap setup\<close>

text \<open>
  The server's answer to \<^verbatim>\<open>/createswap\<close>, after \<^verbatim>\<open>json.loads\<close>;
  \<open>q_redeemScript\<close> is \<^verbatim>\<open>bytes.fromhex(data["redeemScript"])\<close>, \<open>None\<close> when that
  raises.
\<close>

record quote =
  q_id :: string
  q_acceptZeroConf :: bool
  q_expectedAmount :: int
  q_timeoutBlockHeight :: int
  q_address :: string
  q_redeemScript :: "bytes option"

text \<open>
  What \<^verbatim>\<open>normal_swap\<close> obtains from outside: the fresh key pair, the preimage of the
  invoice that \<^verbatim>\<open>lnworker\<close> created, the server's answer (\<open>None\<close> when the request or
  the decoding raises), the local height, the wallet's \<^verbatim>\<open>create_transaction\<close>
  (\<open>None\<close> when it raises) and \<^verbatim>\<open>sign_transaction\<close>, a receiving address, and
  whether the broadcast raises.
\<close>

record normal_swap_env =
  ns_privkey :: bytes
  ns_pubkey :: bytes
  ns_preimage :: bytes
  ns_response :: "quote option"
  ns_local_height :: int
  ns_create_transaction :: "PartialTxOutput list \<Rightarrow> PartialTransaction option"
  ns_sign_transaction :: "PartialTransaction \<Rightarrow> PartialTransaction"
  ns_receive_address :: string
  ns_broadcast_raises :: bool

text \<open>
  The checks of \<^verbatim>\<open>normal_swap\<close> on the answer, in the order of the source; the result
  is the exception raised, if any. Once the template has matched, the parsed script has
  twelve items and the indices 1, 6 and 9 are in range.
\<close>

definition normal_swap_checks ::
    "swap_lib \<Rightarrow> normal_swap_env \<Rightarrow> quote \<Rightarrow> bytes \<Rightarrow> int \<Rightarrow> swap_error option" where
  "normal_swap_checks L E data redeem_scr expected_onchain_amount_sat =
     (let onchain_amt = q_expectedAmount data;
          lock_time = q_timeoutBlockHeight data;
          lockup_addr = q_address data
      in case script_GetOp L redeem_scr of
           None \<Rightarrow> Some MalformedBitcoinScript
         | Some parsed_script \<Rightarrow>
             if \<not> match_script_against_template L redeem_scr (WITNESS_TEMPLATE_SWAP L)
             then Some (CheckFailed ''fswap check failed: scriptcode does not match template'')
             else if script_to_p2wsh L (hex redeem_scr) \<noteq> lockup_addr
             then Some (CheckFailed ''fswap check failed: inconsistent scriptcode and address'')
             else if Some (hash_160 L (ns_preimage E)) \<noteq> vch (parsed_script ! 1)
             then Some (CheckFailed ''fswap check failed: our preimage not in script'')
             else if Some (ns_pubkey E) \<noteq> vch (parsed_script ! 9)
             then Some (CheckFailed ''fswap check failed: our pubkey not in script'')
             else
               (case vch (parsed_script ! 6) of
                  None \<Rightarrow> Some SwapTypeError
                | Some lock_bytes \<Rightarrow>
                    if lock_time \<noteq> int_from_bytes_le lock_bytes
                    then Some (CheckFailed ''fswap check failed: inconsistent locktime and script'')
                    else if onchain_amt > expected_onchain_amount_sat
                    then Some (CheckFailed ''fswap check failed: onchain_amount is more than what we estimated'')
                    else if lock_time - ns_local_height E \<ge> 144
                    then Some (CheckFailed ''fswap check failed: locktime too far in future'')
                    else None))"

text \<open>
  The funding transaction: built by the wallet, or the given transaction with its dummy
  output replaced (\<^verbatim>\<open>list.remove\<close> raises \<^verbatim>\<open>ValueError\<close> when it is absent).
\<close>

definition funding_tx ::
    "swap_lib \<Rightarrow> normal_swap_env \<Rightarrow> PartialTxOutput \<Rightarrow> int \<Rightarrow> PartialTransaction option
       \<Rightarrow> swap_error + PartialTransaction" where
  "funding_tx L E funding_output expected_onchain_amount_sat tx =
     (case tx of
        None \<Rightarrow>
          (case ns_create_transaction E [funding_output] of
             None \<Rightarrow> Inl WalletError
           | Some t \<Rightarrow> Inr t)
      | Some t \<Rightarrow>
          (let dummy_output = \<lparr> o_address = ln_dummy_address L,
                                 o_value = expected_onchain_amount_sat \<rparr>
           in if dummy_output \<notin> set (tx_outputs t) then Inl ValueError
              else Inr (ns_sign_transaction E
                          (t\<lparr> tx_outputs := remove1 dummy_output (tx_outputs t) @ [funding_output],
                             tx_rbf := True \<rparr>))))"

definition normal_swap ::
    "swap_lib \<Rightarrow> normal_swap_env \<Rightarrow> swap_manager \<Rightarrow> int \<Rightarrow> int \<Rightarrow> PartialTransaction option
       \<Rightarrow> (swap_error + string option) \<times> swap_manager" where
  "normal_swap L E M lightning_amount_sat expected_onchain_amount_sat tx =
     (case ns_response E of
        None \<Rightarrow> (Inl RequestFailed, M)
      | Some data \<Rightarrow>
          (case q_redeemScript data of
             None \<Rightarrow> (Inl ValueError, M)
           | Some redeem_scr \<Rightarrow>
               (case normal_swap_checks L E data redeem_scr expected_onchain_amount_sat of
                  Some e \<Rightarrow> (Inl e, M)
                | None \<Rightarrow>
                    (let funding_output = \<lparr> o_address = q_address data,
                                             o_value = q_expectedAmount data \<rparr>
                     in case funding_tx L E funding_output expected_onchain_amount_sat tx of
                          Inl e \<Rightarrow> (Inl e, M)
                        | Inr tx1 \<Rightarrow>
                            (let swap = \<lparr> is_reverse = False,
                                          locktime = q_timeoutBlockHeight data,
                                          onchain_amount = expected_onchain_amount_sat,
                                          lightning_amount = lightning_amount_sat,
                                          redeem_script = redeem_scr,
                                          preimage = ns_preimage E,
                                          prepay_hash = None,
                                          privkey = ns_privkey E,
                                          lockup_address = q_address data,
                                          receive_address = ns_receive_address E,
                                          funding_txid = None,
                                          spending_txid = None,
                                          is_redeemed = False,
                                          funding_prevout = None \<rparr>;
                                 ref = next_ref M;
                                 M1 = M\<lparr> heap := (heap M)(ref := swap), next_ref := Suc ref \<rparr>;
                                 M2 = u_add_or_reindex_swap L M1 ref;
                                 M3 = add_lnwatcher_callback M2 ref
                             in if ns_broadcast_raises E then (Inl BroadcastFailed, M3)
                                else (Inr (tx_txid L tx1),
                                      M3\<lparr> broadcasts := broadcasts M3 @ [BroadcastTx tx1] \<rparr>))))))"

text \<open>
  What holds of every transaction the watcher builds, for a claim fee and dust threshold
  \<open>C\<close> and a swap of direction \<open>is_rev\<close> and agreed amount \<open>amt\<close>: one input of
  value \<open>v\<close>, one output of value \<open>v\<close> minus the fee, not below the dust threshold,
  and for a reverse swap \<open>v\<close> is not less than the agreed amount.
\<close>

definition claim_tx_wf :: "swap_config \<Rightarrow> bool \<Rightarrow> int \<Rightarrow> PartialTransaction \<Rightarrow> bool" where
  "claim_tx_wf C is_rev amt tx =
     (\<exists>v. map value_sats (tx_inputs tx) = [v]
          \<and> map o_value (tx_outputs tx) = [v - claim_fee C]
          \<and> dust_threshold C \<le> v - claim_fee C
          \<and> (is_rev \<longrightarrow> amt \<le> v))"

subsection \<open>Reverse swap setup: the checks on the answer\<close>

text \<open>
  The server's answer to \<^verbatim>\<open>/createswap\<close> for a reverse swap, and what
  \<^verbatim>\<open>reverse_swap\<close> generated before asking: the key pair, the preimage, and the
  local height it reads.
\<close>

record reverse_quote =
  rq_id :: string
  rq_invoice :: string
  rq_minerFeeInvoice :: "string option"
  rq_lockupAddress :: string
  rq_redeemScript :: "bytes option"
  rq_timeoutBlockHeight :: int
  rq_onchainAmount :: int

record reverse_swap_env =
  rs_privkey :: bytes
  rs_pubkey :: bytes
  rs_preimage :: bytes
  rs_local_height :: int

text \<open>
  The checks of \<^verbatim>\<open>reverse_swap\<close> on the redeem script and the quote, in the order of
  the source; the result is the exception raised, if any. Once the template has matched,
  the parsed script has sixteen items and the indices 5, 7 and 10 are in range. The
  invoice checks that follow in the source do not read the script.
\<close>

definition reverse_swap_checks ::
    "swap_lib \<Rightarrow> reverse_swap_env \<Rightarrow> reverse_quote \<Rightarrow> bytes \<Rightarrow> int \<Rightarrow> swap_error option" where
  "reverse_swap_checks L E data redeem_scr expected_onchain_amount_sat =
     (let lockup_addr = rq_lockupAddress data;
          lock_time = rq_timeoutBlockHeight data;
          onchain_amt = rq_onchainAmount data
      in case script_GetOp L redeem_scr of
           None \<Rightarrow> Some MalformedBitcoinScript
         | Some parsed_script \<Rightarrow>
             if \<not> match_script_against_template L redeem_scr (WITNESS_TEMPLATE_REVERSE_SWAP L)
             then Some (CheckFailed ''rswap check failed: scriptcode does not match template'')
             else if script_to_p2wsh L (hex redeem_scr) \<noteq> lockup_addr
             then Some (CheckFailed ''rswap check failed: inconsistent scriptcode and address'')
             else if Some (hash_160 L (rs_preimage E)) \<noteq> vch (parsed_script ! 5)
             then Some (CheckFailed ''rswap check failed: our preimage not in script'')
             else if Some (rs_pubkey E) \<noteq> vch (parsed_script ! 7)
             then Some (CheckFailed ''rswap check failed: our pubkey not in script'')
             else
               (case vch (parsed_script ! 10) of
                  None \<Rightarrow> Some SwapTypeError
                | Some lock_bytes \<Rightarrow>
                    if lock_time \<noteq> int_from_bytes_le lock_bytes
                    then Some (CheckFailed ''rswap check failed: inconsistent locktime and script'')
                    else if onchain_amt < expected_onchain_amount_sat
                    then Some (CheckFailed ''rswap check failed: onchain_amount is less than what we expected'')
                    else if lock_time - rs_local_height E \<le> 60
                    then Some (CheckFailed ''rswap check failed: locktime too close'')
                    else None))"

subsection \<open>Concrete inputs for the verifier\<close>

text \<open>
  A small instance of the library (the hash reverses its input, the hex codec maps a
  letter to its code) and one merkle response, on which the theorems are evaluated.
\<close>

definition demo_char :: "8 word \<Rightarrow> char" where
  "demo_char b = (if b = 97 then CHR ''a'' else if b = 98 then CHR ''b'' else CHR ''c'')"

definition demo_lib :: spv_lib where
  "demo_lib = \<lparr> Hash = rev,
                 hash_decode = (\<lambda>s. if s = [] then None else Some (map (\<lambda>c. of_nat (of_char c)) s)),
                 hash_encode = map demo_char,
                 bh2u = map demo_char,
                 deserializes = (\<lambda>raw. raw = ''ab'') \<rparr>"

definition demo_resp :: response where
  "demo_resp = \<lparr> r_error = False, r_tx_hash = ''b'', r_merkle = [''a'', ''c''],
                  r_block_height = 7, r_pos = 0 \<rparr>"

definition demo_verify_env :: verify_env where
  "demo_verify_env = \<lparr> wallet_verifier_is_None = False,
       v_read_header = (\<lambda>h. Some \<lparr> h_merkle_root = ''cba'', h_timestamp = 0 \<rparr>),
       wallet_is_up_to_date = True \<rparr>"

definition demo_run_env :: run_env where
  "demo_run_env = \<lparr> is_connected = True, net_blockchain = Some 0, local_height = 10,
       unverified = [(''b'', 7)],
       read_header = (\<lambda>h. Some \<lparr> h_merkle_root = ''cab'', h_timestamp = 0 \<rparr>),
       is_before_last_checkpoint = (\<lambda>h. False),
       undo_tx_hashes = [] \<rparr>"

definition demo_requested :: spv_state where
  "demo_requested = run demo_run_env (spv_init (Some 0))"

definition demo_verified :: spv_state where
  "demo_verified =
     snd (verify_merkle demo_lib
            (demo_verify_env\<lparr> v_read_header := read_header demo_run_env \<rparr>)
            demo_requested (demo_resp\<lparr> r_pos := 1 \<rparr>))"

subsection \<open>Concrete fee schedules\<close>

text \<open>
  A schedule with a fee of half a percent and exact decimal arithmetic; the same with a
  fee of 75 percent; the same with a lower limit of 100; and with a lower limit of 10001.
\<close>

definition demo_config :: swap_config where
  "demo_config = \<lparr> normal_fee = 100, lockup_fee = 200, percentage = 1 / 2,
       min_amount = 10000, max_amount = 10000000, dust_threshold = 546, claim_fee = 136,
       decimal_round = (\<lambda>x. x) \<rparr>"




subsection \<open>Concrete inputs for the swap manager\<close>

text \<open>
  A tokeniser for scripts whose pushes are direct (an opcode byte of at most 75 pushes
  that many bytes), with the opcode numbers of the Bitcoin script language, and an
  instance of the imported functions built on it. They serve to evaluate the theorems on
  concrete scripts.
\<close>

definition opcode_of_byte :: "8 word \<Rightarrow> opcode" where
  "opcode_of_byte b =
     (if b = 0xa9 then OP_HASH160 else if b = 0x87 then OP_EQUAL
      else if b = 0x63 then OP_IF else if b = 0x67 then OP_ELSE
      else if b = 0xb1 then OP_CHECKLOCKTIMEVERIFY else if b = 0x75 then OP_DROP
      else if b = 0x68 then OP_ENDIF else if b = 0xac then OP_CHECKSIG
      else if b = 0x82 then OP_SIZE else if b = 0x88 then OP_EQUALVERIFY
      else OP_OTHER (unat b))"

fun demo_GetOp :: "bytes \<Rightarrow> token list option" where
  "demo_GetOp [] = Some []"
| "demo_GetOp (b # rest) =
     (if b \<le> 75 then
        (if length rest < unat b then None
         else map_option (\<lambda>ts. Push (take (unat b) rest) # ts) (demo_GetOp (drop (unat b) rest)))
      else map_option (\<lambda>ts. Op (opcode_of_byte b) # ts) (demo_GetOp rest))"

definition demo_swap_lib :: swap_lib where
  "demo_swap_lib =
     \<lparr> sha256 = rev,
       hash_160 = (\<lambda>b. replicate 20 (last b)),
       script_to_p2wsh = (\<lambda>h. ''p2wsh:'' @ take 4 h),
       script_GetOp = demo_GetOp,
       OPPushDataPubkey = OPPushDataGeneric (Some (\<lambda>x. x = 33 \<or> x = 65)),
       sign_txin = (\<lambda>tx i key. key),
       tx_txid = (\<lambda>tx. Some (''claim:'' @ hex (txid (prevout (hd (tx_inputs tx)))))),
       ln_dummy_address = ''dummy'',
       REDEEM_AFTER_DOUBLE_SPENT_DELAY = 30,
       TX_HEIGHT_LOCAL = - 2 \<rparr>"

text \<open>A reverse-swap script whose size operand is the byte \<open>n\<close>, and its tokens.\<close>

definition reverse_script :: "8 word \<Rightarrow> bytes" where
  "reverse_script n =
     [0x82, 1, n, 0x87, 0x63, 0xa9, 20] @ replicate 20 7 @ [0x88, 33] @ replicate 33 2
     @ [0x67, 0x75, 2, 0x10, 0x01, 0xb1, 0x75, 33] @ replicate 33 3 @ [0x68, 0xac]"

definition reverse_tokens :: "8 word \<Rightarrow> token list" where
  "reverse_tokens n =
     [ Op OP_SIZE, Push [n], Op OP_EQUAL, Op OP_IF, Op OP_HASH160, Push (replicate 20 7),
       Op OP_EQUALVERIFY, Push (replicate 33 2), Op OP_ELSE, Op OP_DROP, Push [0x10, 0x01],
       Op OP_CHECKLOCKTIMEVERIFY, Op OP_DROP, Push (replicate 33 3), Op OP_ENDIF,
       Op OP_CHECKSIG ]"

text \<open>A reverse swap record and a manager that holds no swap yet.\<close>

definition demo_swap :: SwapData where
  "demo_swap = \<lparr> is_reverse = True, locktime = 700, onchain_amount = 50000,
       lightning_amount = 51000, redeem_script = reverse_script 32, preimage = [1, 2, 3],
       prepay_hash = None, privkey = [9], lockup_address = ''lockup'',
       receive_address = ''receive'', funding_txid = None, spending_txid = None,
       is_redeemed = False, funding_prevout = None \<rparr>"

definition empty_manager :: swap_manager where
  "empty_manager = \<lparr> heap = (\<lambda>r. demo_swap), next_ref = 1, swaps = Map.empty,
       swaps_by_funding_outpoint = Map.empty, swaps_by_lockup_address = Map.empty,
       callbacks = Map.empty, wallet_txs = [], broadcasts = [] \<rparr>"

text \<open>The record is added, then its \<open>funding_txid\<close> is set (as on a record loaded from
  the wallet file, where \<open>funding_prevout\<close> is \<open>None\<close>), then it is reindexed.\<close>

definition added_once :: swap_manager where
  "added_once = u_add_or_reindex_swap demo_swap_lib empty_manager 0"

definition txid_set :: swap_manager where
  "txid_set = added_once\<lparr> heap := (heap added_once)
                  (0 := (heap added_once 0)\<lparr> funding_txid := Some ''0a0b'' \<rparr>) \<rparr>"

definition outpoint_set :: swap_manager where
  "outpoint_set = added_once\<lparr> heap := (heap added_once)
                  (0 := (heap added_once 0)\<lparr> funding_txid := Some ''0a0b'',
                         funding_prevout := Some (TxOutpoint [10, 11] 0) \<rparr>) \<rparr>"

text \<open>
  Three unspent outputs at the lockup address (below the agreed amount, above it, and
  below the dust threshold after the fee), what one invocation of the watcher reads, a
  manager whose record is a forward swap past its locktime, and the reverse record with
  its funding transaction id set.
\<close>

definition low_txin :: PartialTxInput where
  "low_txin = \<lparr> prevout = TxOutpoint [10, 11] 0, value_sats = 40000, spent_height = None,
       spent_txid = None, block_height = 640, script_sig = None, witness_script = None,
       witness = None \<rparr>"

definition good_txin :: PartialTxInput where
  "good_txin = low_txin\<lparr> prevout := TxOutpoint [12, 13] 1, value_sats := 60000 \<rparr>"

definition dust_txin :: PartialTxInput where
  "dust_txin = low_txin\<lparr> prevout := TxOutpoint [14, 15] 0, value_sats := 600 \<rparr>"

definition demo_claim_env :: claim_env where
  "demo_claim_env = \<lparr> adb_is_up_to_date = True, cs_local_height = 650,
       addr_outputs = (\<lambda>a. if a = ''lockup'' then [low_txin, good_txin] else []),
       allow_instant_swaps = False, broadcast_raises = (\<lambda>t. False) \<rparr>"

definition refund_manager :: swap_manager where
  "refund_manager = added_once\<lparr> heap := (heap added_once)
       (0 := demo_swap\<lparr> is_reverse := False, locktime := 600 \<rparr>) \<rparr>"

definition funded_swap :: SwapData where
  "funded_swap = demo_swap\<lparr> funding_txid := Some (hex (txid (prevout good_txin))) \<rparr>"

text \<open>
  A forward-swap script with a given locktime push, its tokens, a quote the checks
  accept (amount 50000, locktime 272 at height 200), the same quote with a higher amount,
  and with a locktime 200 blocks ahead.
\<close>

definition forward_script :: "bytes \<Rightarrow> bytes" where
  "forward_script lock_bytes =
     [0xa9, 20] @ replicate 20 3 @ [0x87, 0x63, 33] @ replicate 33 2
     @ [0x67, 2] @ lock_bytes @ [0xb1, 0x75, 33] @ replicate 33 4 @ [0x68, 0xac]"

definition forward_tokens :: "bytes \<Rightarrow> token list" where
  "forward_tokens lock_bytes =
     [ Op OP_HASH160, Push (replicate 20 3), Op OP_EQUAL, Op OP_IF, Push (replicate 33 2),
       Op OP_ELSE, Push lock_bytes, Op OP_CHECKLOCKTIMEVERIFY, Op OP_DROP,
       Push (replicate 33 4), Op OP_ENDIF, Op OP_CHECKSIG ]"

definition demo_quote :: quote where
  "demo_quote = \<lparr> q_id = ''id'', q_acceptZeroConf = False, q_expectedAmount = 50000,
       q_timeoutBlockHeight = 272, q_address = ''p2wsh:a914'',
       q_redeemScript = Some (forward_script [0x10, 0x01]) \<rparr>"

definition demo_swap_env :: normal_swap_env where
  "demo_swap_env = \<lparr> ns_privkey = [9], ns_pubkey = replicate 33 4, ns_preimage = [1, 2, 3],
       ns_response = Some demo_quote, ns_local_height = 200,
       ns_create_transaction =
         (\<lambda>outs. Some \<lparr> tx_inputs = [], tx_outputs = outs, tx_version = 2, tx_locktime = 0,
                         tx_rbf = True \<rparr>),
       ns_sign_transaction = (\<lambda>tx. tx), ns_receive_address = ''receive'',
       ns_broadcast_raises = False \<rparr>"

definition dear_quote :: quote where
  "dear_quote = demo_quote\<lparr> q_expectedAmount := 50500 \<rparr>"

definition far_quote :: quote where
  "far_quote = demo_quote\<lparr> q_timeoutBlockHeight := 400,
                           q_redeemScript := Some (forward_script [0x90, 0x01]) \<rparr>"

definition dear_quote_env :: normal_swap_env where
  "dear_quote_env = demo_swap_env\<lparr> ns_response := Some dear_quote \<rparr>"

definition far_quote_env :: normal_swap_env where
  "far_quote_env = demo_swap_env\<lparr> ns_response := Some far_quote \<rparr>"

text \<open>
  An answer to a reverse swap request whose redeem script compares the preimage size
  with 33, and the key, preimage and height it is checked against.
\<close>

definition size_33_quote :: reverse_quote where
  "size_33_quote = \<lparr> rq_id = ''id'', rq_invoice = ''invoice'', rq_minerFeeInvoice = None,
       rq_lockupAddress = ''p2wsh:8201'', rq_redeemScript = Some (reverse_script 33),
       rq_timeoutBlockHeight = 272, rq_onchainAmount = 50000 \<rparr>"

definition demo_reverse_env :: reverse_swap_env where
  "demo_reverse_env = \<lparr> rs_privkey = [9], rs_pubkey = replicate 33 2, rs_preimage = [5, 6, 7],
       rs_local_height = 200 \<rparr>"

section \<open>Properties of the SPV verifier\<close>

lemma shift_and_one_is_bit: "((drop_bit i (pos::int)) AND 1 \<noteq> 0) = bit pos i"
  by (simp add: and_one_eq bit_iff_odd_drop_bit odd_iff_mod_2_eq_one)

lemma merkle_loop_append:
  "merkle_loop L pos i (xs @ ys) h =
     (case merkle_loop L pos i xs h of
        Inl e \<Rightarrow> Inl e
      | Inr h' \<Rightarrow> merkle_loop L pos (i + length xs) ys h')"
  by (induction xs arbitrary: i h) (auto simp: Let_def split: option.splits sum.splits)

lemma merkle_fold_append:
  "k \<le> length sibs \<Longrightarrow> merkle_fold L pos (sibs @ ys) h k = merkle_fold L pos sibs h k"
  by (induction k) (auto simp: nth_append)

lemma merkle_loop_single:
  "hash_decode L x = Some d \<Longrightarrow>
   merkle_loop L pos i [x] h =
     (if deserializes L (bh2u L (fold_step L pos i h d)) then Inl InnerNodeOfSpvProofIsValidTx
      else Inr (fold_step L pos i h d))"
  by (simp add: Let_def raise_if_valid_tx_def fold_step_def shift_and_one_is_bit)

lemma merkle_loop_fold:
  "map (hash_decode L) xs = map Some sibs \<Longrightarrow>
   merkle_loop L pos 0 xs h =
     (if \<exists>k<length sibs. deserializes L (bh2u L (merkle_fold L pos sibs h (Suc k)))
      then Inl InnerNodeOfSpvProofIsValidTx
      else Inr (merkle_fold L pos sibs h (length sibs)))"
proof (induction xs arbitrary: sibs rule: rev_induct)
  case Nil
  then show ?case by simp
next
  case (snoc x xs)
  from snoc.prems obtain sibs' d where
    sibs: "sibs = sibs' @ [d]" and pre: "map (hash_decode L) xs = map Some sibs'"
    and d: "hash_decode L x = Some d"
    by (cases sibs rule: rev_cases) auto
  have len: "length xs = length sibs'"
    using pre by (metis length_map)
  have fold_pre: "\<And>k. k \<le> length sibs' \<Longrightarrow>
      merkle_fold L pos sibs h k = merkle_fold L pos sibs' h k"
    by (simp add: sibs merkle_fold_append)
  have last_step: "merkle_fold L pos sibs h (Suc (length sibs')) =
      fold_step L pos (length sibs') (merkle_fold L pos sibs' h (length sibs')) d"
    by (simp add: fold_pre) (simp add: sibs)
  have ex_split: "(\<exists>k<length sibs. deserializes L (bh2u L (merkle_fold L pos sibs h (Suc k)))) \<longleftrightarrow>
      (\<exists>k<length sibs'. deserializes L (bh2u L (merkle_fold L pos sibs' h (Suc k)))) \<or>
      deserializes L (bh2u L (merkle_fold L pos sibs h (Suc (length sibs'))))"
    (is "?A \<longleftrightarrow> ?B \<or> ?C")
  proof
    assume ?A
    then obtain k where k: "k < length sibs" and v: "deserializes L (bh2u L (merkle_fold L pos sibs h (Suc k)))"
      by blast
    show "?B \<or> ?C"
    proof (cases "k < length sibs'")
      case True
      then have "merkle_fold L pos sibs h (Suc k) = merkle_fold L pos sibs' h (Suc k)"
        by (intro fold_pre) simp
      with v True show ?thesis by auto
    next
      case False
      with k have "k = length sibs'" by (simp add: sibs)
      with v show ?thesis by simp
    qed
  next
    assume "?B \<or> ?C"
    then show ?A
    proof
      assume ?B
      then obtain k where k: "k < length sibs'" and v: "deserializes L (bh2u L (merkle_fold L pos sibs' h (Suc k)))"
        by blast
      then have "merkle_fold L pos sibs h (Suc k) = merkle_fold L pos sibs' h (Suc k)"
        by (intro fold_pre) simp
      with k v show ?A by (auto simp: sibs intro!: exI[of _ k])
    next
      assume ?C
      then show ?A by (auto simp: sibs intro!: exI[of _ "length sibs'"])
    qed
  qed
  have step: "merkle_loop L pos 0 (xs @ [x]) h =
      (case merkle_loop L pos 0 xs h of
         Inl e \<Rightarrow> Inl e
       | Inr h' \<Rightarrow>
           if deserializes L (bh2u L (fold_step L pos (length sibs') h' d))
           then Inl InnerNodeOfSpvProofIsValidTx
           else Inr (fold_step L pos (length sibs') h' d))"
    by (simp add: merkle_loop_append merkle_loop_single[OF d] len del: merkle_loop.simps split: sum.splits)
  have len_sibs: "length sibs = Suc (length sibs')"
    by (simp add: sibs)
  let ?A' = "\<exists>k<length sibs'. deserializes L (bh2u L (merkle_fold L pos sibs' h (Suc k)))"
  let ?C = "deserializes L (bh2u L (merkle_fold L pos sibs h (Suc (length sibs'))))"
  show ?case
  proof (cases ?A')
    case True
    then have "merkle_loop L pos 0 xs h = Inl InnerNodeOfSpvProofIsValidTx"
      using snoc.IH[OF pre] by simp
    then have "merkle_loop L pos 0 (xs @ [x]) h = Inl InnerNodeOfSpvProofIsValidTx"
      unfolding step by simp
    moreover have "\<exists>k<length sibs. deserializes L (bh2u L (merkle_fold L pos sibs h (Suc k)))"
      unfolding ex_split using True by blast
    ultimately show ?thesis by (simp del: merkle_fold.simps)
  next
    case False
    then have "merkle_loop L pos 0 xs h = Inr (merkle_fold L pos sibs' h (length sibs'))"
      using snoc.IH[OF pre] by (simp del: merkle_fold.simps)
    then have res: "merkle_loop L pos 0 (xs @ [x]) h =
        (if ?C then Inl InnerNodeOfSpvProofIsValidTx
         else Inr (merkle_fold L pos sibs h (Suc (length sibs'))))"
      unfolding step last_step by simp
    have "(\<exists>k<length sibs. deserializes L (bh2u L (merkle_fold L pos sibs h (Suc k)))) \<longleftrightarrow> ?C"
      unfolding ex_split using False by blast
    then show ?thesis
      unfolding res len_sibs by (simp del: merkle_fold.simps)
  qed
qed

lemma hash_merkle_root_fold:
  assumes "hash_decode L target_hash = Some h"
      and "map (hash_decode L) merkle_s = map Some sibs"
  shows "hash_merkle_root L merkle_s target_hash pos =
           (if \<exists>k<length sibs. deserializes L (bh2u L (merkle_fold L pos sibs h (Suc k)))
            then Inl InnerNodeOfSpvProofIsValidTx
            else Inr (hash_encode L (merkle_fold L pos sibs h (length sibs))))"
  unfolding hash_merkle_root_def using assms
  by (simp add: merkle_loop_fold del: merkle_fold.simps)

text \<open>
  Claim C5. For a transaction hash and siblings that decode, \<open>hash_merkle_root\<close> returns
  the encoding of the hash obtained by folding the target with sibling \<open>k\<close> at step
  \<open>k\<close>, where bit \<open>k\<close> of \<open>pos\<close> decides whether the sibling is prepended (bit
  set) or appended (bit clear), unless one of the fold's hashes deserializes as a
  transaction. For the three-leaf tree with the target at position 1 and siblings
  \<open>[h0, h23]\<close> the result is \<open>Hash (Hash (h0 + target) + h23)\<close>.
\<close>

theorem hash_merkle_root_folds_by_position_bits:
  assumes "hash_decode L target_hash = Some h"
      and "map (hash_decode L) merkle_s = map Some sibs"
  shows "hash_merkle_root L merkle_s target_hash pos =
           (if \<exists>k<length sibs. deserializes L (bh2u L (merkle_fold L pos sibs h (Suc k)))
            then Inl InnerNodeOfSpvProofIsValidTx
            else Inr (hash_encode L (merkle_fold L pos sibs h (length sibs))))
       \<and> (\<forall>k<length sibs. merkle_fold L pos sibs h (Suc k) =
             (if bit pos k then Hash L (sibs ! k @ merkle_fold L pos sibs h k)
              else Hash L (merkle_fold L pos sibs h k @ sibs ! k)))
       \<and> (hash_decode L h0 = Some d0 \<and> hash_decode L h23 = Some d23
            \<and> \<not> deserializes L (bh2u L (Hash L (d0 @ h)))
            \<and> \<not> deserializes L (bh2u L (Hash L (Hash L (d0 @ h) @ d23)))
          \<longrightarrow> hash_merkle_root L [h0, h23] target_hash 1 =
                Inr (hash_encode L (Hash L (Hash L (d0 @ h) @ d23))))"
proof (intro conjI)
  show "hash_merkle_root L merkle_s target_hash pos =
           (if \<exists>k<length sibs. deserializes L (bh2u L (merkle_fold L pos sibs h (Suc k)))
            then Inl InnerNodeOfSpvProofIsValidTx
            else Inr (hash_encode L (merkle_fold L pos sibs h (length sibs))))"
    using assms by (rule hash_merkle_root_fold)
  show "\<forall>k<length sibs. merkle_fold L pos sibs h (Suc k) =
             (if bit pos k then Hash L (sibs ! k @ merkle_fold L pos sibs h k)
              else Hash L (merkle_fold L pos sibs h k @ sibs ! k))"
    by (simp add: fold_step_def)
  show "hash_decode L h0 = Some d0 \<and> hash_decode L h23 = Some d23
            \<and> \<not> deserializes L (bh2u L (Hash L (d0 @ h)))
            \<and> \<not> deserializes L (bh2u L (Hash L (Hash L (d0 @ h) @ d23)))
          \<longrightarrow> hash_merkle_root L [h0, h23] target_hash 1 =
                Inr (hash_encode L (Hash L (Hash L (d0 @ h) @ d23)))"
    using assms(1)
    by (simp add: hash_merkle_root_def raise_if_valid_tx_def Let_def)
qed

text \<open>The three-leaf case of C5 on the concrete library.\<close>

theorem hash_merkle_root_folds_by_position_bits_witness:
  "hash_decode demo_lib ''b'' = Some [98]
   \<and> map (hash_decode demo_lib) [''a'', ''c''] = map Some [[97], [99]]
   \<and> hash_merkle_root demo_lib [''a'', ''c''] ''b'' 1 = Inr ''cab''"
proof -
  have t: "hash_decode demo_lib ''b'' = Some [98]"
    by (simp add: demo_lib_def demo_char_def)
  have sibs: "map (hash_decode demo_lib) [''a'', ''c''] = map Some [[97], [99]]"
    by (simp add: demo_lib_def demo_char_def)
  have leaf3: "hash_decode demo_lib ''a'' = Some [97] \<and> hash_decode demo_lib ''c'' = Some [99]
      \<and> \<not> deserializes demo_lib (bh2u demo_lib (Hash demo_lib ([97] @ [98])))
      \<and> \<not> deserializes demo_lib (bh2u demo_lib (Hash demo_lib (Hash demo_lib ([97] @ [98]) @ [99])))"
    by (simp add: demo_lib_def demo_char_def)
  have enc: "hash_encode demo_lib (Hash demo_lib (Hash demo_lib ([97] @ [98]) @ [99])) = ''cab''"
    by (simp add: demo_lib_def demo_char_def)
  from hash_merkle_root_folds_by_position_bits
         [OF t sibs, of 1 "''a''" "[97]" "''c''" "[99]"] leaf3
  have "hash_merkle_root demo_lib [''a'', ''c''] ''b'' 1 =
          Inr (hash_encode demo_lib (Hash demo_lib (Hash demo_lib ([97] @ [98]) @ [99])))"
    by blast
  with t sibs enc show ?thesis by simp
qed


lemma merkle_loop_prefix_error:
  "merkle_loop L pos i xs h = Inl e \<Longrightarrow> merkle_loop L pos i (xs @ ys) h = Inl e"
  by (simp add: merkle_loop_append)

lemma merkle_loop_inner_node:
  assumes k: "k < length merkle_s"
      and dec: "map (hash_decode L) (take (Suc k) merkle_s) = map Some sibs"
      and v: "deserializes L (bh2u L (merkle_fold L pos sibs h (Suc k)))"
  shows "merkle_loop L pos 0 merkle_s h = Inl InnerNodeOfSpvProofIsValidTx"
proof -
  have "length sibs = Suc k"
    using k dec by (metis length_map length_take min.absorb2 Suc_leI)
  with v have "\<exists>j<length sibs. deserializes L (bh2u L (merkle_fold L pos sibs h (Suc j)))"
    by (metis lessI)
  then have "merkle_loop L pos 0 (take (Suc k) merkle_s) h = Inl InnerNodeOfSpvProofIsValidTx"
    using merkle_loop_fold[OF dec, of pos h] by (simp del: merkle_fold.simps)
  then have "merkle_loop L pos 0 (take (Suc k) merkle_s @ drop (Suc k) merkle_s) h
              = Inl InnerNodeOfSpvProofIsValidTx"
    by (rule merkle_loop_prefix_error)
  then show ?thesis by simp
qed

text \<open>
  Claim C2. If the hash after fold step \<open>k + 1\<close> deserializes as a transaction (the
  siblings up to there decode), \<open>hash_merkle_root\<close> raises
  \<open>InnerNodeOfSpvProofIsValidTx\<close>, whatever the later siblings and the position are, and
  \<open>verify_merkle\<close> returns with the state as it was, for every header store: the
  header's root is never compared, so it does not matter whether it would have matched.
\<close>

theorem inner_node_valid_tx_aborts_before_root_comparison:
  assumes "hash_decode L (r_tx_hash resp) = Some h"
      and "k < length (r_merkle resp)"
      and "map (hash_decode L) (take (Suc k) (r_merkle resp)) = map Some sibs"
      and "deserializes L (bh2u L (merkle_fold L (r_pos resp) sibs h (Suc k)))"
  shows "hash_merkle_root L (r_merkle resp) (r_tx_hash resp) (r_pos resp)
           = Inl InnerNodeOfSpvProofIsValidTx
       \<and> snd (verify_merkle L E s resp) = s
       \<and> fst (verify_merkle L E s resp) \<in> {Killed, ReceivedError, InnerNodeLooksLikeTx}
       \<and> (\<not> wallet_verifier_is_None E \<and> \<not> r_error resp
            \<longrightarrow> verify_merkle L E s resp = (InnerNodeLooksLikeTx, s))"
proof -
  have root: "hash_merkle_root L (r_merkle resp) (r_tx_hash resp) (r_pos resp)
           = Inl InnerNodeOfSpvProofIsValidTx"
    unfolding hash_merkle_root_def
    using assms(1) merkle_loop_inner_node[OF assms(2,3,4)] by simp
  then show ?thesis
    by (simp add: verify_merkle_def)
qed

text \<open>
  C2 on a response whose first fold step yields a valid transaction, against a header
  whose stored root equals the root the whole path would have produced.
\<close>

theorem inner_node_valid_tx_aborts_before_root_comparison_witness:
  "hash_decode demo_lib (r_tx_hash demo_resp) = Some [98]
   \<and> 0 < length (r_merkle demo_resp)
   \<and> map (hash_decode demo_lib) (take (Suc 0) (r_merkle demo_resp)) = map Some [[97]]
   \<and> deserializes demo_lib (bh2u demo_lib (merkle_fold demo_lib (r_pos demo_resp) [[97]] [98] (Suc 0)))
   \<and> hash_encode demo_lib (merkle_fold demo_lib (r_pos demo_resp) [[97], [99]] [98] 2)
        = h_merkle_root (the (v_read_header demo_verify_env 7))
   \<and> hash_merkle_root demo_lib (r_merkle demo_resp) (r_tx_hash demo_resp) (r_pos demo_resp)
        = Inl InnerNodeOfSpvProofIsValidTx
   \<and> verify_merkle demo_lib demo_verify_env (spv_init None) demo_resp
        = (InnerNodeLooksLikeTx, spv_init None)"
proof -
  have a1: "hash_decode demo_lib (r_tx_hash demo_resp) = Some [98]"
    by (simp add: demo_lib_def demo_resp_def)
  have a2: "0 < length (r_merkle demo_resp)"
    by (simp add: demo_resp_def)
  have a3: "map (hash_decode demo_lib) (take (Suc 0) (r_merkle demo_resp)) = map Some [[97]]"
    by (simp add: demo_lib_def demo_resp_def)
  have a4: "deserializes demo_lib
              (bh2u demo_lib (merkle_fold demo_lib (r_pos demo_resp) [[97]] [98] (Suc 0)))"
    by (simp add: demo_lib_def demo_resp_def demo_char_def fold_step_def)
  have final: "hash_encode demo_lib (merkle_fold demo_lib (r_pos demo_resp) [[97], [99]] [98] 2)
        = h_merkle_root (the (v_read_header demo_verify_env 7))"
    by (simp add: demo_lib_def demo_resp_def demo_char_def fold_step_def demo_verify_env_def
          numeral_2_eq_2)
  have live: "\<not> wallet_verifier_is_None demo_verify_env \<and> \<not> r_error demo_resp"
    by (simp add: demo_verify_env_def demo_resp_def)
  from inner_node_valid_tx_aborts_before_root_comparison
         [OF a1 a2 a3 a4, of demo_verify_env "spv_init None"] live
  have "hash_merkle_root demo_lib (r_merkle demo_resp) (r_tx_hash demo_resp) (r_pos demo_resp)
          = Inl InnerNodeOfSpvProofIsValidTx
      \<and> verify_merkle demo_lib demo_verify_env (spv_init None) demo_resp
          = (InnerNodeLooksLikeTx, spv_init None)"
    by blast
  with a1 a2 a3 a4 final show ?thesis by blast
qed

text \<open>
  Claim C10. With an empty sibling list \<open>hash_merkle_root\<close> performs no fold step: the
  result is the decoded target hash encoded again (the target hash itself where the codec
  round-trips), it does not depend on \<open>Hash\<close> or on the valid-transaction test, and it
  is never the inner-node error.
\<close>

theorem hash_merkle_root_empty_path:
  "hash_merkle_root L [] target_hash pos =
     (case hash_decode L target_hash of
        None \<Rightarrow> Inl HashDecodeError
      | Some h \<Rightarrow> Inr (hash_encode L h))
   \<and> hash_merkle_root L [] target_hash pos \<noteq> Inl InnerNodeOfSpvProofIsValidTx
   \<and> hash_merkle_root (L\<lparr> Hash := H, deserializes := V \<rparr>) [] target_hash pos
       = hash_merkle_root L [] target_hash pos
   \<and> (hash_decode L target_hash = Some h \<and> hash_encode L h = target_hash
        \<longrightarrow> hash_merkle_root L [] target_hash pos = Inr target_hash)"
  by (auto simp: hash_merkle_root_def split: option.splits)

text \<open>C10 on a target hash that would itself pass the valid-transaction test.\<close>

theorem hash_merkle_root_empty_path_witness:
  "hash_decode demo_lib ''ab'' = Some [97, 98] \<and> hash_encode demo_lib [97, 98] = ''ab''
   \<and> deserializes demo_lib ''ab''
   \<and> hash_merkle_root demo_lib [] ''ab'' 5 = Inr ''ab''"
proof -
  have codec: "hash_decode demo_lib ''ab'' = Some [97, 98] \<and> hash_encode demo_lib [97, 98] = ''ab''"
    by (simp add: demo_lib_def demo_char_def)
  moreover have "deserializes demo_lib ''ab''"
    by (simp add: demo_lib_def)
  moreover from hash_merkle_root_empty_path [of demo_lib "''ab''" 5 _ _ "[97, 98]"] codec
  have "hash_merkle_root demo_lib [] ''ab'' 5 = Inr ''ab''"
    by blast
  ultimately show ?thesis by blast
qed

lemma spv_inv_remove: "spv_inv s \<Longrightarrow> spv_inv (remove_spv_proof_for_tx s tx_hash)"
  by (auto simp: spv_inv_def remove_spv_proof_for_tx_def)

lemma spv_inv_undo: "spv_inv s \<Longrightarrow> spv_inv (undo_verifications tx_hashes s)"
  unfolding undo_verifications_def
  by (induction tx_hashes arbitrary: s) (simp_all add: spv_inv_remove)

lemma spv_inv_run_step: "spv_inv s \<Longrightarrow> spv_inv (run_step E s item)"
  by (auto simp: spv_inv_def run_step_def split: prod.splits option.splits)

lemma spv_inv_run_loop: "spv_inv s \<Longrightarrow> spv_inv (foldl (run_step E) s items)"
  by (induction items arbitrary: s) (simp_all add: spv_inv_run_step)

lemma spv_inv_blockchain_update: "spv_inv (s\<lparr> blockchain := b \<rparr>) = spv_inv s"
  by (simp add: spv_inv_def)

lemma spv_inv_run: "spv_inv s \<Longrightarrow> spv_inv (run E s)"
  by (simp add: run_def Let_def spv_inv_run_loop spv_inv_undo spv_inv_blockchain_update)

lemma spv_inv_verify_merkle: "spv_inv s \<Longrightarrow> spv_inv (snd (verify_merkle L E s resp))"
  by (auto simp: verify_merkle_def spv_inv_def Let_def
           split: sum.splits spv_error.splits option.splits)

text \<open>
  Claim C8. No transaction id is both in \<open>requested_merkle\<close> and a key of
  \<open>merkle_roots\<close>: this holds initially and is preserved by the request step of
  \<open>run\<close>, by \<open>run\<close> as a whole, by \<open>verify_merkle\<close> and by
  \<open>remove_spv_proof_for_tx\<close>.
\<close>

theorem requested_and_verified_disjoint:
  "spv_inv (spv_init bc)
   \<and> (spv_inv s \<longrightarrow> spv_inv (run_step E s item))
   \<and> (spv_inv s \<longrightarrow> spv_inv (run E s))
   \<and> (spv_inv s \<longrightarrow> spv_inv (snd (verify_merkle L VE s resp)))
   \<and> (spv_inv s \<longrightarrow> spv_inv (remove_spv_proof_for_tx s tx_hash))"
  by (simp add: spv_inv_run_step spv_inv_run spv_inv_verify_merkle spv_inv_remove)
     (simp add: spv_inv_def spv_init_def)


text \<open>C8 along a run: request a proof, verify it, remove it.\<close>

theorem requested_and_verified_disjoint_witness:
  "spv_inv (spv_init (Some 0))
   \<and> requested_merkle demo_requested = {''b''} \<and> dom (merkle_roots demo_requested) = {}
   \<and> spv_inv demo_requested
   \<and> requested_merkle demo_verified = {} \<and> merkle_roots demo_verified ''b'' = Some ''cab''
   \<and> spv_inv demo_verified
   \<and> spv_inv (remove_spv_proof_for_tx demo_verified ''b'')"
proof -
  note inv = requested_and_verified_disjoint
  have i0: "spv_inv (spv_init (Some 0))"
    using inv [where bc = "Some 0"] by blast
  have i1: "spv_inv demo_requested"
    unfolding demo_requested_def
    using inv [where s = "spv_init (Some 0)" and bc = "Some 0" and E = demo_run_env] by blast
  have i2: "spv_inv demo_verified"
    unfolding demo_verified_def
    using i1 inv [where s = demo_requested and L = demo_lib
                     and VE = "demo_verify_env\<lparr> v_read_header := read_header demo_run_env \<rparr>"
                     and resp = "demo_resp\<lparr> r_pos := 1 \<rparr>"]
    by blast
  have i3: "spv_inv (remove_spv_proof_for_tx demo_verified ''b'')"
    using i2 inv [where s = demo_verified and tx_hash = "''b''"] by blast
  have req: "demo_requested =
      \<lparr> merkle_roots = Map.empty, requested_merkle = {''b''}, blockchain = Some 0,
        network_calls = [GetMerkleForTransaction ''b'' 7], wallet_calls = [] \<rparr>"
    by (simp add: demo_requested_def run_def run_step_def demo_run_env_def spv_init_def)
  have root: "hash_merkle_root demo_lib [''a'', ''c''] ''b'' 1 = Inr ''cab''"
    by (simp add: hash_merkle_root_def raise_if_valid_tx_def demo_lib_def demo_char_def)
  have ver: "requested_merkle demo_verified = {} \<and> merkle_roots demo_verified ''b'' = Some ''cab''"
    by (simp add: demo_verified_def verify_merkle_def demo_verify_env_def demo_resp_def root
          req demo_run_env_def is_up_to_date_def Let_def)
  from i0 i1 i2 i3 ver show ?thesis
    by (simp add: req)
qed


section \<open>Properties of the fee calculation\<close>


lemma get_recv_amount_NoneD:
  assumes "get_recv_amount C (Some s) r = Inr None"
  shows "u_get_recv_amount C (Some s) r = Inr None"
  using assms unfolding get_recv_amount_def
  by (auto split: sum.splits option.splits if_splits)

























section \<open>Properties of the script templates\<close>

lemma demo_swap_lib_sel:
  "script_GetOp demo_swap_lib = demo_GetOp"
  "hash_160 demo_swap_lib = (\<lambda>b. replicate 20 (last b))"
  "script_to_p2wsh demo_swap_lib = (\<lambda>h. ''p2wsh:'' @ take 4 h)"
  "sha256 demo_swap_lib = rev"
  "ln_dummy_address demo_swap_lib = ''dummy''"
  by (simp_all add: demo_swap_lib_def)

lemma demo_GetOp_reverse_script: "demo_GetOp (reverse_script n) = Some (reverse_tokens n)"
  by (simp add: reverse_script_def reverse_tokens_def opcode_of_byte_def)

lemma reverse_tokens_match:
  "match_parsed_script (reverse_tokens n) (WITNESS_TEMPLATE_REVERSE_SWAP demo_swap_lib)"
  by (simp add: match_parsed_script_def reverse_tokens_def WITNESS_TEMPLATE_REVERSE_SWAP_def
        demo_swap_lib_def)

lemma hex_reverse_script: "take 4 (hex (reverse_script 33)) = ''8201''"
  by (simp add: reverse_script_def hex_def hex_digit_def)

lemma reverse_tokens_nth:
  "reverse_tokens n ! 5 = Push (replicate 20 7)"
  "reverse_tokens n ! 7 = Push (replicate 33 2)"
  "reverse_tokens n ! 10 = Push [0x10, 0x01]"
  by (simp_all add: reverse_tokens_def)

text \<open>
  Claim C4. The code breaks it: the slot after \<open>OP_SIZE\<close> in the reverse-swap template
  is \<^verbatim>\<open>OPPushDataGeneric(None)\<close> and no later check of \<^verbatim>\<open>reverse_swap\<close> reads
  it, so a redeem script that compares the preimage size with 33 matches the template
  and passes every check on the script and the quote.
\<close>

theorem reverse_swap_accepts_size_33_script:
  "rq_redeemScript size_33_quote = Some (reverse_script 33)
   \<and> script_GetOp demo_swap_lib (reverse_script 33) = Some (reverse_tokens 33)
   \<and> take 3 (reverse_tokens 33) = [Op OP_SIZE, Push [33], Op OP_EQUAL]
   \<and> [33] \<noteq> [32 :: 8 word]
   \<and> match_script_against_template demo_swap_lib (reverse_script 33)
        (WITNESS_TEMPLATE_REVERSE_SWAP demo_swap_lib)
   \<and> reverse_swap_checks demo_swap_lib demo_reverse_env size_33_quote (reverse_script 33) 50000
        = None"
proof -
  have parse: "script_GetOp demo_swap_lib (reverse_script 33) = Some (reverse_tokens 33)"
    by (simp add: demo_swap_lib_sel demo_GetOp_reverse_script)
  then have m: "match_script_against_template demo_swap_lib (reverse_script 33)
      (WITNESS_TEMPLATE_REVERSE_SWAP demo_swap_lib)"
    by (simp add: match_script_against_template_def reverse_tokens_match)
  have "reverse_swap_checks demo_swap_lib demo_reverse_env size_33_quote (reverse_script 33) 50000
        = None"
    by (simp add: reverse_swap_checks_def m demo_swap_lib_sel demo_GetOp_reverse_script
          hex_reverse_script reverse_tokens_nth size_33_quote_def demo_reverse_env_def)
  with parse m show ?thesis
    by (simp add: reverse_tokens_def size_33_quote_def)
qed

section \<open>Properties of the swap index\<close>

lemma hex_demo: "hex [3, 2, 1] = ''030201''"
  by (simp add: hex_def hex_digit_def)

text \<open>
  Claim C9 as stated fails: the funding-outpoint index is keyed on \<open>funding_prevout\<close>,
  not on \<open>funding_txid\<close>. A record is added with \<open>funding_txid = None\<close>, its
  \<open>funding_txid\<close> is then set, and reindexing leaves the funding-outpoint index empty.
\<close>

theorem reindex_after_funding_txid_counterexample:
  "funding_txid (heap empty_manager 0) = None
   \<and> funding_txid (heap txid_set 0) = Some ''0a0b''
   \<and> swaps_by_funding_outpoint (u_add_or_reindex_swap demo_swap_lib txid_set 0) = Map.empty"
  by (simp add: txid_set_def added_once_def empty_manager_def demo_swap_def
        u_add_or_reindex_swap_def Let_def)

lemma reindex_swaps:
  "swaps (u_add_or_reindex_swap L M ref) =
     (if hex (payment_hash L (heap M ref)) \<in> dom (swaps M) then swaps M
      else (swaps M)(hex (payment_hash L (heap M ref)) \<mapsto> ref))"
  by (auto simp: u_add_or_reindex_swap_def Let_def split: option.splits)

lemma reindex_by_outpoint:
  "swaps_by_funding_outpoint (u_add_or_reindex_swap L M ref) =
     (case funding_prevout (heap M ref) of
        None \<Rightarrow> swaps_by_funding_outpoint M
      | Some outpoint \<Rightarrow> (swaps_by_funding_outpoint M)(outpoint \<mapsto> ref))"
  by (auto simp: u_add_or_reindex_swap_def Let_def split: option.splits)

lemma reindex_by_address:
  "swaps_by_lockup_address (u_add_or_reindex_swap L M ref) =
     (swaps_by_lockup_address M)(lockup_address (heap M ref) \<mapsto> ref)"
  by (auto simp: u_add_or_reindex_swap_def Let_def split: option.splits)

lemma reindex_rest:
  "heap (u_add_or_reindex_swap L M ref) = heap M"
  "next_ref (u_add_or_reindex_swap L M ref) = next_ref M"
  "callbacks (u_add_or_reindex_swap L M ref) = callbacks M"
  "wallet_txs (u_add_or_reindex_swap L M ref) = wallet_txs M"
  "broadcasts (u_add_or_reindex_swap L M ref) = broadcasts M"
  by (auto simp: u_add_or_reindex_swap_def Let_def split: option.splits)

lemma reindex_idem:
  "u_add_or_reindex_swap L (u_add_or_reindex_swap L M ref) ref = u_add_or_reindex_swap L M ref"
  by (rule swap_manager.equality)
     (auto simp: reindex_swaps reindex_by_outpoint reindex_by_address reindex_rest
           split: option.splits)

text \<open>
  Claim C9, amended. \<open>u_add_or_reindex_swap\<close> is idempotent; it inserts the record into
  the primary map only when its payment hash is new, so a second call leaves the primary
  map unchanged; it always sets the lockup-address index; and it sets the
  funding-outpoint index exactly when the record's funding outpoint
  (\<open>funding_prevout\<close>) is set: a record without one gets no entry, and reindexing after
  the outpoint is set populates the index.
\<close>

theorem add_or_reindex_keyed_on_outpoint:
  "u_add_or_reindex_swap L (u_add_or_reindex_swap L M ref) ref = u_add_or_reindex_swap L M ref
   \<and> swaps (u_add_or_reindex_swap L (u_add_or_reindex_swap L M ref) ref)
       = swaps (u_add_or_reindex_swap L M ref)
   \<and> (hex (payment_hash L (heap M ref)) \<in> dom (swaps M)
        \<longrightarrow> swaps (u_add_or_reindex_swap L M ref) = swaps M)
   \<and> (hex (payment_hash L (heap M ref)) \<notin> dom (swaps M)
        \<longrightarrow> swaps (u_add_or_reindex_swap L M ref)
              = (swaps M)(hex (payment_hash L (heap M ref)) \<mapsto> ref))
   \<and> (funding_prevout (heap M ref) = None
        \<longrightarrow> swaps_by_funding_outpoint (u_add_or_reindex_swap L M ref)
              = swaps_by_funding_outpoint M)
   \<and> (funding_prevout (heap M ref) = Some outpoint
        \<longrightarrow> swaps_by_funding_outpoint (u_add_or_reindex_swap L M ref) outpoint = Some ref)
   \<and> swaps_by_lockup_address (u_add_or_reindex_swap L M ref) (lockup_address (heap M ref))
       = Some ref
   \<and> (funding_prevout (heap M ref) = None
        \<longrightarrow> (let M1 = u_add_or_reindex_swap L M ref;
                  M2 = M1\<lparr> heap := (heap M1)(ref := (heap M1 ref)\<lparr> funding_txid := Some t,
                                                  funding_prevout := Some outpoint \<rparr>) \<rparr>;
                  M3 = u_add_or_reindex_swap L M2 ref
              in swaps_by_funding_outpoint M1 = swaps_by_funding_outpoint M
                 \<and> swaps_by_funding_outpoint M3 outpoint = Some ref
                 \<and> swaps M3 = swaps M1))"
  by (auto simp: reindex_idem reindex_swaps reindex_by_outpoint reindex_by_address reindex_rest
        Let_def payment_hash_def)

text \<open>The amended C9 on the concrete record, before and after its outpoint is set.\<close>

theorem add_or_reindex_keyed_on_outpoint_witness:
  "funding_prevout (heap empty_manager 0) = None
   \<and> hex (payment_hash demo_swap_lib (heap empty_manager 0)) \<notin> dom (swaps empty_manager)
   \<and> swaps added_once = [''030201'' \<mapsto> 0]
   \<and> swaps_by_funding_outpoint added_once = Map.empty
   \<and> funding_prevout (heap outpoint_set 0) = Some (TxOutpoint [10, 11] 0)
   \<and> hex (payment_hash demo_swap_lib (heap outpoint_set 0)) \<in> dom (swaps outpoint_set)
   \<and> swaps_by_funding_outpoint (u_add_or_reindex_swap demo_swap_lib outpoint_set 0)
        (TxOutpoint [10, 11] 0) = Some 0
   \<and> swaps (u_add_or_reindex_swap demo_swap_lib outpoint_set 0) = swaps outpoint_set
   \<and> swaps_by_lockup_address (u_add_or_reindex_swap demo_swap_lib outpoint_set 0) ''lockup''
        = Some 0"
proof -
  note T = add_or_reindex_keyed_on_outpoint
  have p0: "funding_prevout (heap empty_manager 0) = None"
    by (simp add: empty_manager_def demo_swap_def)
  have key: "hex (payment_hash demo_swap_lib (heap empty_manager 0)) = ''030201''"
    by (simp add: empty_manager_def demo_swap_def payment_hash_def demo_swap_lib_def hex_demo)
  have new: "hex (payment_hash demo_swap_lib (heap empty_manager 0)) \<notin> dom (swaps empty_manager)"
    by (simp add: empty_manager_def)
  have s1: "swaps added_once = [''030201'' \<mapsto> 0]"
    unfolding added_once_def
    using T [where L = demo_swap_lib and M = empty_manager and ref = 0] new
    by (simp add: key) (simp add: empty_manager_def)
  have f1: "swaps_by_funding_outpoint added_once = Map.empty"
    unfolding added_once_def
    using T [where L = demo_swap_lib and M = empty_manager and ref = 0] p0
    by (simp add: empty_manager_def)
  have heap1: "heap added_once = heap empty_manager"
    by (simp add: added_once_def reindex_rest)
  have p2: "funding_prevout (heap outpoint_set 0) = Some (TxOutpoint [10, 11] 0)"
    by (simp add: outpoint_set_def)
  have key2: "hex (payment_hash demo_swap_lib (heap outpoint_set 0)) = ''030201''"
    by (simp add: outpoint_set_def heap1 payment_hash_def)
       (simp add: empty_manager_def demo_swap_def demo_swap_lib_def hex_demo)
  have old: "hex (payment_hash demo_swap_lib (heap outpoint_set 0)) \<in> dom (swaps outpoint_set)"
    by (simp add: key2) (simp add: outpoint_set_def s1)
  have addr: "lockup_address (heap outpoint_set 0) = ''lockup''"
    by (simp add: outpoint_set_def heap1) (simp add: empty_manager_def demo_swap_def)
  from T [where L = demo_swap_lib and M = outpoint_set and ref = 0
            and outpoint = "TxOutpoint [10, 11] 0"] p2 old addr
  have "swaps_by_funding_outpoint (u_add_or_reindex_swap demo_swap_lib outpoint_set 0)
          (TxOutpoint [10, 11] 0) = Some 0
      \<and> swaps (u_add_or_reindex_swap demo_swap_lib outpoint_set 0) = swaps outpoint_set
      \<and> swaps_by_lockup_address (u_add_or_reindex_swap demo_swap_lib outpoint_set 0) ''lockup''
          = Some 0"
    by simp
  with p0 new s1 f1 p2 old show ?thesis
    by blast
qed


section \<open>Properties of the claim watcher\<close>

lemma sign_tx_result:
  assumes "sign_tx L tx swap = Inr tx'"
  shows "tx_outputs tx' = tx_outputs tx
       \<and> map value_sats (tx_inputs tx') = map value_sats (tx_inputs tx)
       \<and> map prevout (tx_inputs tx') = map prevout (tx_inputs tx)
       \<and> length (tx_inputs tx) = 1"
  using assms unfolding sign_tx_def
  by (auto simp: Let_def split: list.splits if_splits)

lemma create_and_sign_result:
  assumes "u_create_and_sign_claim_tx L C txin swap = Inr tx"
  shows "map value_sats (tx_inputs tx) = [value_sats txin]
       \<and> map prevout (tx_inputs tx) = [prevout txin]
       \<and> map o_value (tx_outputs tx) = [value_sats txin - claim_fee C]
       \<and> dust_threshold C \<le> value_sats txin - claim_fee C"
proof -
  let ?amt = "value_sats txin - claim_fee C"
  let ?tx0 = "create_claim_tx txin (redeem_script swap) (receive_address swap) ?amt
                (if is_reverse swap then 0 else locktime swap)"
  from assms have dust: "dust_threshold C \<le> ?amt" and s: "sign_tx L ?tx0 swap = Inr tx"
    unfolding u_create_and_sign_claim_tx_def u_get_claim_fee_def
    by (auto simp: Let_def split: if_splits)
  from sign_tx_result[OF s] dust show ?thesis
    by (simp add: create_claim_tx_def Let_def)
qed

lemma create_and_sign_below_dust:
  "value_sats txin - claim_fee C < dust_threshold C \<Longrightarrow>
   u_create_and_sign_claim_tx L C txin swap = Inl BelowDustLimit"
  by (simp add: u_create_and_sign_claim_tx_def u_get_claim_fee_def Let_def)

lemma create_and_sign_total:
  assumes "dust_threshold C \<le> value_sats txin - claim_fee C"
      and "funding_txid swap = Some (hex (txid (prevout txin)))"
  shows "\<exists>tx. u_create_and_sign_claim_tx L C txin swap = Inr tx"
  using assms
  by (simp add: u_create_and_sign_claim_tx_def u_get_claim_fee_def Let_def sign_tx_def
        create_claim_tx_def)

lemma claim_step_static:
  "is_reverse (heap (snd (claim_step L C E ch d ref txin M)) ref) = is_reverse (heap M ref)
   \<and> onchain_amount (heap (snd (claim_step L C E ch d ref txin M)) ref)
       = onchain_amount (heap M ref)"
  unfolding claim_step_def
  by (simp add: Let_def reindex_rest split: option.splits sum.splits swap_error.splits)

lemma claim_step_low_output:
  "is_reverse (heap M ref) \<Longrightarrow> value_sats txin < onchain_amount (heap M ref) \<Longrightarrow>
   claim_step L C E ch d ref txin M = (Continue, M)"
  by (simp add: claim_step_def)

lemma claim_step_wallet_txs:
  "wallet_txs (snd (claim_step L C E ch d ref txin M)) = wallet_txs M
   \<or> (\<exists>tx swap. wallet_txs (snd (claim_step L C E ch d ref txin M)) = wallet_txs M @ [tx]
         \<and> u_create_and_sign_claim_tx L C txin swap = Inr tx
         \<and> spent_height txin = None
         \<and> \<not> (is_reverse (heap M ref) \<and> value_sats txin < onchain_amount (heap M ref)))"
  unfolding claim_step_def
  by (auto simp: Let_def reindex_rest split: option.splits sum.splits swap_error.splits)

lemma claim_step_new_txs:
  "\<exists>new. wallet_txs (snd (claim_step L C E ch d ref txin M)) = wallet_txs M @ new
         \<and> list_all (claim_tx_wf C (is_reverse (heap M ref)) (onchain_amount (heap M ref))) new"
proof -
  from claim_step_wallet_txs[of L C E ch d ref txin M]
  show ?thesis
  proof
    assume "wallet_txs (snd (claim_step L C E ch d ref txin M)) = wallet_txs M"
    then show ?thesis by (intro exI[of _ "[]"]) simp
  next
    assume "\<exists>tx swap. wallet_txs (snd (claim_step L C E ch d ref txin M)) = wallet_txs M @ [tx]
         \<and> u_create_and_sign_claim_tx L C txin swap = Inr tx
         \<and> spent_height txin = None
         \<and> \<not> (is_reverse (heap M ref) \<and> value_sats txin < onchain_amount (heap M ref))"
    then obtain tx swap where
      w: "wallet_txs (snd (claim_step L C E ch d ref txin M)) = wallet_txs M @ [tx]"
      and c: "u_create_and_sign_claim_tx L C txin swap = Inr tx"
      and hi: "\<not> (is_reverse (heap M ref) \<and> value_sats txin < onchain_amount (heap M ref))"
      by blast
    from create_and_sign_result[OF c] hi
    have "claim_tx_wf C (is_reverse (heap M ref)) (onchain_amount (heap M ref)) tx"
      unfolding claim_tx_wf_def by auto
    with w show ?thesis by (intro exI[of _ "[tx]"]) simp
  qed
qed

lemma claim_loop_static:
  "is_reverse (heap (snd (claim_loop L C E ch d ref txos M)) ref) = is_reverse (heap M ref)
   \<and> onchain_amount (heap (snd (claim_loop L C E ch d ref txos M)) ref)
       = onchain_amount (heap M ref)"
proof (induction txos arbitrary: M)
  case Nil
  then show ?case by simp
next
  case (Cons txin rest)
  obtain x M' where st: "claim_step L C E ch d ref txin M = (x, M')"
    by (cases "claim_step L C E ch d ref txin M")
  with claim_step_static[of L C E ch d ref txin M]
  have keep: "is_reverse (heap M' ref) = is_reverse (heap M ref)
      \<and> onchain_amount (heap M' ref) = onchain_amount (heap M ref)"
    by simp
  show ?case
    using Cons.IH[of M'] keep st by (cases x) simp_all
qed

lemma claim_loop_new_txs:
  "\<exists>new. wallet_txs (snd (claim_loop L C E ch d ref txos M)) = wallet_txs M @ new
         \<and> list_all (claim_tx_wf C (is_reverse (heap M ref)) (onchain_amount (heap M ref))) new"
proof (induction txos arbitrary: M)
  case Nil
  then show ?case by simp
next
  case (Cons txin rest)
  obtain x M' where st: "claim_step L C E ch d ref txin M = (x, M')"
    by (cases "claim_step L C E ch d ref txin M")
  with claim_step_static[of L C E ch d ref txin M]
  have keep: "is_reverse (heap M' ref) = is_reverse (heap M ref)"
      "onchain_amount (heap M' ref) = onchain_amount (heap M ref)"
    by simp_all
  from claim_step_new_txs[of L C E ch d ref txin M] st obtain n1 where
    n1: "wallet_txs M' = wallet_txs M @ n1"
        "list_all (claim_tx_wf C (is_reverse (heap M ref)) (onchain_amount (heap M ref))) n1"
    by auto
  from Cons.IH[of M'] keep obtain n2 where
    n2: "wallet_txs (snd (claim_loop L C E ch d ref rest M')) = wallet_txs M' @ n2"
        "list_all (claim_tx_wf C (is_reverse (heap M ref)) (onchain_amount (heap M ref))) n2"
    by auto
  show ?case
  proof (cases x)
    case Continue
    with st n1 n2 show ?thesis by (intro exI[of _ "n1 @ n2"]) simp
  next
    case Return
    with st n1 show ?thesis by (intro exI[of _ n1]) simp
  next
    case (Raise e)
    with st n1 show ?thesis by (intro exI[of _ n1]) simp
  qed
qed

lemma claim_swap_static:
  "is_reverse (heap (snd (u_claim_swap L C E ref M)) ref) = is_reverse (heap M ref)
   \<and> onchain_amount (heap (snd (u_claim_swap L C E ref M)) ref) = onchain_amount (heap M ref)"
  by (simp add: u_claim_swap_def Let_def claim_loop_static)

lemma claim_swap_new_txs:
  "\<exists>new. wallet_txs (snd (u_claim_swap L C E ref M)) = wallet_txs M @ new
         \<and> list_all (claim_tx_wf C (is_reverse (heap M ref)) (onchain_amount (heap M ref))) new"
  using claim_loop_new_txs[of L C E _ _ ref _ M]
  by (simp add: u_claim_swap_def Let_def)

lemma watch_new_txs:
  "\<exists>new. wallet_txs (watch L C ref Es M) = wallet_txs M @ new
         \<and> list_all (claim_tx_wf C (is_reverse (heap M ref)) (onchain_amount (heap M ref))) new"
proof (induction Es arbitrary: M)
  case Nil
  then show ?case by simp
next
  case (Cons E Es)
  let ?M' = "snd (u_claim_swap L C E ref M)"
  from claim_swap_new_txs[of L C E ref M] obtain n1 where
    n1: "wallet_txs ?M' = wallet_txs M @ n1"
        "list_all (claim_tx_wf C (is_reverse (heap M ref)) (onchain_amount (heap M ref))) n1"
    by auto
  from Cons.IH[of ?M'] claim_swap_static[of L C E ref M] obtain n2 where
    n2: "wallet_txs (watch L C ref Es ?M') = wallet_txs ?M' @ n2"
        "list_all (claim_tx_wf C (is_reverse (heap M ref)) (onchain_amount (heap M ref))) n2"
    by auto
  from n1 n2 show ?case by (intro exI[of _ "n1 @ n2"]) simp
qed

lemma watch_static:
  "is_reverse (heap (watch L C ref Es M) ref) = is_reverse (heap M ref)
   \<and> onchain_amount (heap (watch L C ref Es M) ref) = onchain_amount (heap M ref)"
  by (induction Es arbitrary: M) (simp_all add: claim_swap_static)

lemma claim_step_below_dust:
  assumes "value_sats txin - claim_fee C < dust_threshold C"
  shows "wallet_txs (snd (claim_step L C E ch d ref txin M)) = wallet_txs M"
    and "spent_height txin = None \<Longrightarrow>
           fst (claim_step L C E ch d ref txin M) \<in> {Continue, Return}
           \<and> spending_txid (heap (snd (claim_step L C E ch d ref txin M)) ref)
               = spending_txid (heap M ref)
           \<and> broadcasts (snd (claim_step L C E ch d ref txin M)) = broadcasts M"
  using assms unfolding claim_step_def
  by (auto simp: Let_def reindex_rest create_and_sign_below_dust split: option.splits)

lemma claim_step_claims:
  assumes "dust_threshold C \<le> value_sats txin - claim_fee C"
      and "spent_height txin = None"
      and "\<not> (is_reverse (heap M ref) \<and> value_sats txin < onchain_amount (heap M ref))"
      and "\<not> (\<not> is_reverse (heap M ref) \<and> d < 0)"
  shows "\<exists>tx. wallet_txs (snd (claim_step L C E ch d ref txin M)) = wallet_txs M @ [tx]
            \<and> map o_value (tx_outputs tx) = [value_sats txin - claim_fee C]
            \<and> spending_txid (heap (snd (claim_step L C E ch d ref txin M)) ref) = tx_txid L tx"
proof -
  let ?swap = "(heap M ref)\<lparr> funding_txid := Some (hex (txid (prevout txin))),
                              funding_prevout := Some (prevout txin) \<rparr>"
  from create_and_sign_total[of C txin ?swap L] assms(1)
  obtain tx where tx: "u_create_and_sign_claim_tx L C txin ?swap = Inr tx"
    by auto
  from create_and_sign_result[OF tx]
  have v: "map o_value (tx_outputs tx) = [value_sats txin - claim_fee C]"
    by simp
  have "wallet_txs (snd (claim_step L C E ch d ref txin M)) = wallet_txs M @ [tx]
      \<and> spending_txid (heap (snd (claim_step L C E ch d ref txin M)) ref) = tx_txid L tx"
    using assms(2,3,4) tx unfolding claim_step_def
    by (auto simp: Let_def reindex_rest)
  with v show ?thesis by (intro exI[of _ tx]) simp
qed

text \<open>
  Claim C3. For a reverse swap, an output at the lockup address whose value is below the
  swap's \<open>onchain_amount\<close> is skipped: the step of the watcher's loop leaves the whole
  state as it was (no record update, no transaction, no broadcast, the callback stays)
  and goes on to the next output. Over every sequence of invocations the direction and
  the agreed amount of the record do not change, and every transaction added to the
  wallet spends only outputs of at least the agreed amount.
\<close>

theorem low_output_never_claimed:
  "(is_reverse (heap M ref) \<and> value_sats txin < onchain_amount (heap M ref)
      \<longrightarrow> claim_step L C E ch d ref txin M = (Continue, M))
   \<and> is_reverse (heap (watch L C ref Es M) ref) = is_reverse (heap M ref)
   \<and> onchain_amount (heap (watch L C ref Es M) ref) = onchain_amount (heap M ref)
   \<and> (is_reverse (heap M ref) \<longrightarrow>
        (\<exists>new. wallet_txs (watch L C ref Es M) = wallet_txs M @ new
              \<and> (\<forall>tx \<in> set new. \<forall>i \<in> set (tx_inputs tx).
                     onchain_amount (heap M ref) \<le> value_sats i)))"
proof (intro conjI impI)
  assume "is_reverse (heap M ref) \<and> value_sats txin < onchain_amount (heap M ref)"
  then show "claim_step L C E ch d ref txin M = (Continue, M)"
    by (simp add: claim_step_low_output)
next
  show "is_reverse (heap (watch L C ref Es M) ref) = is_reverse (heap M ref)"
    and "onchain_amount (heap (watch L C ref Es M) ref) = onchain_amount (heap M ref)"
    by (simp_all add: watch_static)
next
  assume r: "is_reverse (heap M ref)"
  from watch_new_txs[of L C ref Es M] obtain new where
    w: "wallet_txs (watch L C ref Es M) = wallet_txs M @ new"
    and wf: "list_all (claim_tx_wf C (is_reverse (heap M ref)) (onchain_amount (heap M ref))) new"
    by blast
  have "\<forall>tx \<in> set new. \<forall>i \<in> set (tx_inputs tx). onchain_amount (heap M ref) \<le> value_sats i"
  proof (intro ballI)
    fix tx i assume tx: "tx \<in> set new" and i: "i \<in> set (tx_inputs tx)"
    from wf tx have "claim_tx_wf C (is_reverse (heap M ref)) (onchain_amount (heap M ref)) tx"
      unfolding list_all_iff by blast
    with r obtain v where v: "map value_sats (tx_inputs tx) = [v]"
      and le: "onchain_amount (heap M ref) \<le> v"
      unfolding claim_tx_wf_def by auto
    from i have "value_sats i \<in> set (map value_sats (tx_inputs tx))"
      by simp
    with v le show "onchain_amount (heap M ref) \<le> value_sats i"
      by simp
  qed
  with w show "\<exists>new. wallet_txs (watch L C ref Es M) = wallet_txs M @ new
              \<and> (\<forall>tx \<in> set new. \<forall>i \<in> set (tx_inputs tx).
                     onchain_amount (heap M ref) \<le> value_sats i)"
    by blast
qed

text \<open>
  Claim C7. For an output of value \<open>V\<close> and claim fee \<open>F\<close>, a transaction that
  \<open>u_create_and_sign_claim_tx\<close> returns has the single output value \<open>V - F\<close>; it returns
  one whenever \<open>V - F\<close> is not below the dust threshold and the record's funding id is
  that of the output, as it is in the watcher. Whenever \<open>V - F\<close> is below the dust
  threshold it raises \<open>BelowDustLimit\<close>, and the watcher's step adds no transaction to the
  wallet, leaves \<open>spending_txid\<close> and the broadcasts as they were, and does not raise.
  Every transaction added over any sequence of invocations has output value \<open>V - F\<close>.
\<close>

theorem claim_tx_value_and_dust:
  "(u_create_and_sign_claim_tx L C txin swap = Inr tx \<longrightarrow>
      map o_value (tx_outputs tx) = [value_sats txin - claim_fee C]
      \<and> dust_threshold C \<le> value_sats txin - claim_fee C)
   \<and> (dust_threshold C \<le> value_sats txin - claim_fee C
        \<and> funding_txid swap = Some (hex (txid (prevout txin)))
        \<longrightarrow> (\<exists>tx'. u_create_and_sign_claim_tx L C txin swap = Inr tx'))
   \<and> (dust_threshold C \<le> value_sats txin - claim_fee C \<and> spent_height txin = None
        \<and> \<not> (is_reverse (heap M ref) \<and> value_sats txin < onchain_amount (heap M ref))
        \<and> \<not> (\<not> is_reverse (heap M ref) \<and> d < 0)
        \<longrightarrow> (\<exists>tx'. wallet_txs (snd (claim_step L C E ch d ref txin M)) = wallet_txs M @ [tx']
                  \<and> map o_value (tx_outputs tx') = [value_sats txin - claim_fee C]))
   \<and> (value_sats txin - claim_fee C < dust_threshold C \<longrightarrow>
        u_create_and_sign_claim_tx L C txin swap = Inl BelowDustLimit
        \<and> wallet_txs (snd (claim_step L C E ch d ref txin M)) = wallet_txs M
        \<and> (spent_height txin = None \<longrightarrow>
             fst (claim_step L C E ch d ref txin M) \<in> {Continue, Return}
             \<and> spending_txid (heap (snd (claim_step L C E ch d ref txin M)) ref)
                 = spending_txid (heap M ref)
             \<and> broadcasts (snd (claim_step L C E ch d ref txin M)) = broadcasts M))
   \<and> (\<exists>new. wallet_txs (watch L C ref Es M) = wallet_txs M @ new
          \<and> (\<forall>t \<in> set new. \<exists>v. map value_sats (tx_inputs t) = [v]
                  \<and> map o_value (tx_outputs t) = [v - claim_fee C]
                  \<and> dust_threshold C \<le> v - claim_fee C))"
proof (intro conjI impI)
  assume "u_create_and_sign_claim_tx L C txin swap = Inr tx"
  from create_and_sign_result[OF this]
  show "map o_value (tx_outputs tx) = [value_sats txin - claim_fee C]"
    and "dust_threshold C \<le> value_sats txin - claim_fee C"
    by simp_all
next
  assume "dust_threshold C \<le> value_sats txin - claim_fee C
        \<and> funding_txid swap = Some (hex (txid (prevout txin)))"
  then show "\<exists>tx'. u_create_and_sign_claim_tx L C txin swap = Inr tx'"
    by (simp add: create_and_sign_total)
next
  assume "dust_threshold C \<le> value_sats txin - claim_fee C \<and> spent_height txin = None
        \<and> \<not> (is_reverse (heap M ref) \<and> value_sats txin < onchain_amount (heap M ref))
        \<and> \<not> (\<not> is_reverse (heap M ref) \<and> d < 0)"
  then have h: "dust_threshold C \<le> value_sats txin - claim_fee C" "spent_height txin = None"
      "\<not> (is_reverse (heap M ref) \<and> value_sats txin < onchain_amount (heap M ref))"
      "\<not> (\<not> is_reverse (heap M ref) \<and> d < 0)"
    by blast+
  from claim_step_claims[OF h, of L E ch] obtain t where
    "wallet_txs (snd (claim_step L C E ch d ref txin M)) = wallet_txs M @ [t]"
    "map o_value (tx_outputs t) = [value_sats txin - claim_fee C]"
    by auto
  then show "\<exists>tx'. wallet_txs (snd (claim_step L C E ch d ref txin M)) = wallet_txs M @ [tx']
                  \<and> map o_value (tx_outputs tx') = [value_sats txin - claim_fee C]"
    by (intro exI[of _ t]) simp
next
  assume low: "value_sats txin - claim_fee C < dust_threshold C"
  then show "u_create_and_sign_claim_tx L C txin swap = Inl BelowDustLimit"
    by (rule create_and_sign_below_dust)
  from low show "wallet_txs (snd (claim_step L C E ch d ref txin M)) = wallet_txs M"
    by (rule claim_step_below_dust(1))
  {
    assume "spent_height txin = None"
    with claim_step_below_dust(2)[OF low, of L E ch d ref M]
    show "fst (claim_step L C E ch d ref txin M) \<in> {Continue, Return}"
      and "spending_txid (heap (snd (claim_step L C E ch d ref txin M)) ref)
                 = spending_txid (heap M ref)"
      and "broadcasts (snd (claim_step L C E ch d ref txin M)) = broadcasts M"
      by simp_all
  }
next
  from watch_new_txs[of L C ref Es M] obtain new where
    w: "wallet_txs (watch L C ref Es M) = wallet_txs M @ new"
    and wf: "list_all (claim_tx_wf C (is_reverse (heap M ref)) (onchain_amount (heap M ref))) new"
    by blast
  from wf have "\<forall>t \<in> set new. \<exists>v. map value_sats (tx_inputs t) = [v]
                  \<and> map o_value (tx_outputs t) = [v - claim_fee C]
                  \<and> dust_threshold C \<le> v - claim_fee C"
    unfolding claim_tx_wf_def list_all_iff by auto
  with w show "\<exists>new. wallet_txs (watch L C ref Es M) = wallet_txs M @ new
          \<and> (\<forall>t \<in> set new. \<exists>v. map value_sats (tx_inputs t) = [v]
                  \<and> map o_value (tx_outputs t) = [v - claim_fee C]
                  \<and> dust_threshold C \<le> v - claim_fee C)"
    by blast
qed


lemma added_once_fields:
  "heap added_once = (\<lambda>r. demo_swap)" "wallet_txs added_once = []"
  "broadcasts added_once = []"
  by (simp_all add: added_once_def reindex_rest empty_manager_def)

lemma demo_swap_fields:
  "is_reverse demo_swap = True" "onchain_amount demo_swap = 50000" "locktime demo_swap = 700"
  "lockup_address demo_swap = ''lockup''" "funding_txid demo_swap = None"
  "funding_prevout demo_swap = None" "spending_txid demo_swap = None"
  by (simp_all add: demo_swap_def)

lemma watch_demo_eval:
  "map (\<lambda>tx. (map value_sats (tx_inputs tx), map o_value (tx_outputs tx)))
        (wallet_txs (watch demo_swap_lib demo_config 0 [demo_claim_env] added_once))
      = [([60000], [59864])]"
  by (simp add: u_claim_swap_def claim_step_def Let_def added_once_fields demo_swap_fields
        demo_claim_env_def low_txin_def good_txin_def reindex_rest
        u_create_and_sign_claim_tx_def u_get_claim_fee_def create_claim_tx_def sign_tx_def
        demo_config_def)

text \<open>
  C3 on the reverse swap with one output below and one above the agreed amount: only the
  second is claimed.
\<close>

theorem low_output_never_claimed_witness:
  "is_reverse (heap added_once 0) \<and> value_sats low_txin < onchain_amount (heap added_once 0)
   \<and> claim_step demo_swap_lib demo_config demo_claim_env 650 (- 50) 0 low_txin added_once
        = (Continue, added_once)
   \<and> map (\<lambda>tx. map value_sats (tx_inputs tx))
        (wallet_txs (watch demo_swap_lib demo_config 0 [demo_claim_env] added_once)) = [[60000]]"
proof -
  note T = low_output_never_claimed
             [where L = demo_swap_lib and C = demo_config and E = demo_claim_env and ch = 650
                and d = "- 50" and ref = 0 and txin = low_txin and M = added_once
                and Es = "[demo_claim_env]"]
  have r: "is_reverse (heap added_once 0)"
    by (simp add: added_once_fields demo_swap_fields)
  have low: "value_sats low_txin < onchain_amount (heap added_once 0)"
    by (simp add: added_once_fields demo_swap_fields low_txin_def)
  from T r low have skip:
    "claim_step demo_swap_lib demo_config demo_claim_env 650 (- 50) 0 low_txin added_once
        = (Continue, added_once)"
    by simp
  have one: "map (\<lambda>tx. map value_sats (tx_inputs tx))
        (wallet_txs (watch demo_swap_lib demo_config 0 [demo_claim_env] added_once)) = [[60000]]"
    using watch_demo_eval
    by (cases "wallet_txs (watch demo_swap_lib demo_config 0 [demo_claim_env] added_once)") auto
  from r low skip one show ?thesis
    by (intro conjI)
qed

text \<open>C7 on an output of 60000 with a fee of 136, and on an output of 600.\<close>

theorem claim_tx_value_and_dust_witness:
  "dust_threshold demo_config \<le> value_sats good_txin - claim_fee demo_config
   \<and> funding_txid funded_swap = Some (hex (txid (prevout good_txin)))
   \<and> (\<exists>tx. u_create_and_sign_claim_tx demo_swap_lib demo_config good_txin funded_swap = Inr tx
            \<and> map o_value (tx_outputs tx) = [59864])
   \<and> value_sats dust_txin - claim_fee demo_config < dust_threshold demo_config
   \<and> spent_height dust_txin = None
   \<and> u_create_and_sign_claim_tx demo_swap_lib demo_config dust_txin funded_swap
        = Inl BelowDustLimit
   \<and> wallet_txs (snd (claim_step demo_swap_lib demo_config demo_claim_env 650 50 0 dust_txin
                          refund_manager)) = []
   \<and> spending_txid (heap (snd (claim_step demo_swap_lib demo_config demo_claim_env 650 50 0
                                    dust_txin refund_manager)) 0) = None"
proof -
  note T = claim_tx_value_and_dust
             [where L = demo_swap_lib and C = demo_config and E = demo_claim_env and ch = 650
                and d = 50 and ref = 0 and M = refund_manager and swap = funded_swap]
  have ok: "dust_threshold demo_config \<le> value_sats good_txin - claim_fee demo_config"
    by (simp add: demo_config_def good_txin_def low_txin_def)
  have fund: "funding_txid funded_swap = Some (hex (txid (prevout good_txin)))"
    by (simp add: funded_swap_def)
  have amt: "value_sats good_txin - claim_fee demo_config = 59864"
    by (simp add: demo_config_def good_txin_def low_txin_def)
  from T [where txin = good_txin] ok fund
  obtain tx where tx: "u_create_and_sign_claim_tx demo_swap_lib demo_config good_txin funded_swap
                         = Inr tx"
    by blast
  with T [where txin = good_txin and tx = tx]
  have "map o_value (tx_outputs tx) = [value_sats good_txin - claim_fee demo_config]"
    by blast
  with tx amt have made:
    "\<exists>tx. u_create_and_sign_claim_tx demo_swap_lib demo_config good_txin funded_swap = Inr tx
            \<and> map o_value (tx_outputs tx) = [59864]"
    by simp
  have dust: "value_sats dust_txin - claim_fee demo_config < dust_threshold demo_config"
    by (simp add: demo_config_def dust_txin_def low_txin_def)
  have unspent: "spent_height dust_txin = None"
    by (simp add: dust_txin_def low_txin_def)
  have before: "wallet_txs refund_manager = [] \<and> spending_txid (heap refund_manager 0) = None"
    by (simp add: refund_manager_def added_once_fields demo_swap_fields)
  from T [where txin = dust_txin] dust unspent
  have "u_create_and_sign_claim_tx demo_swap_lib demo_config dust_txin funded_swap
            = Inl BelowDustLimit
      \<and> wallet_txs (snd (claim_step demo_swap_lib demo_config demo_claim_env 650 50 0 dust_txin
                              refund_manager)) = wallet_txs refund_manager
      \<and> spending_txid (heap (snd (claim_step demo_swap_lib demo_config demo_claim_env 650 50 0
                                        dust_txin refund_manager)) 0)
          = spending_txid (heap refund_manager 0)"
    by blast
  with before ok fund made dust unspent show ?thesis
    by simp
qed


section \<open>Properties of the forward swap setup\<close>

lemma demo_GetOp_forward_script:
  "length lock_bytes = 2 \<Longrightarrow> demo_GetOp (forward_script lock_bytes) = Some (forward_tokens lock_bytes)"
  by (simp add: forward_script_def forward_tokens_def opcode_of_byte_def)

lemma forward_tokens_match:
  "match_parsed_script (forward_tokens lock_bytes) (WITNESS_TEMPLATE_SWAP demo_swap_lib)"
  by (simp add: match_parsed_script_def forward_tokens_def WITNESS_TEMPLATE_SWAP_def
        demo_swap_lib_def)

lemma hex_forward_script: "take 4 (hex (forward_script lock_bytes)) = ''a914''"
  by (simp add: forward_script_def hex_def hex_digit_def)

lemma normal_swap_checks_amount:
  "q_expectedAmount data > expected \<or> q_timeoutBlockHeight data - ns_local_height E \<ge> 144
   \<Longrightarrow> normal_swap_checks L E data redeem_scr expected \<noteq> None"
  unfolding normal_swap_checks_def
  by (auto simp: Let_def split: option.splits)

lemma normal_swap_rejects:
  assumes "normal_swap_checks L E data redeem_scr expected = Some e"
      and "ns_response E = Some data" and "q_redeemScript data = Some redeem_scr"
  shows "normal_swap L E M ln_amt expected tx = (Inl e, M)"
  using assms by (simp add: normal_swap_def)

lemma normal_swap_accepts:
  assumes "ns_response E = Some data" and "q_redeemScript data = Some redeem_scr"
      and "normal_swap_checks L E data redeem_scr expected = None"
      and "funding_tx L E \<lparr> o_address = q_address data, o_value = q_expectedAmount data \<rparr>
             expected tx = Inr tx1"
      and "\<not> ns_broadcast_raises E"
  shows "fst (normal_swap L E M ln_amt expected tx) = Inr (tx_txid L tx1)
       \<and> broadcasts (snd (normal_swap L E M ln_amt expected tx)) = broadcasts M @ [BroadcastTx tx1]
       \<and> swaps_by_lockup_address (snd (normal_swap L E M ln_amt expected tx)) (q_address data)
           = Some (next_ref M)
       \<and> callbacks (snd (normal_swap L E M ln_amt expected tx)) (q_address data)
           = Some (next_ref M)"
  using assms
  by (simp add: normal_swap_def Let_def add_lnwatcher_callback_def reindex_rest
        reindex_by_address)

text \<open>
  Claim C6. \<open>normal_swap\<close> raises on every quote whose on-chain amount exceeds
  \<open>expected_onchain_amount_sat\<close>, and on every quote whose locktime is 144 blocks or more
  above the local height (so also when it is more than 144 above); the manager's state
  is then exactly as before: no record in the store or the indices, no watcher callback,
  no broadcast. Conversely the checks pass only within both bounds, and a quote that
  passes them is stored, watched and broadcast.
\<close>

theorem forward_swap_rejects_bad_quote:
  "(ns_response E = Some data
     \<and> (q_expectedAmount data > expected
          \<or> q_timeoutBlockHeight data - ns_local_height E \<ge> 144)
     \<longrightarrow> (\<exists>e. normal_swap L E M ln_amt expected tx = (Inl e, M)))
   \<and> (ns_response E = Some data \<and> q_redeemScript data = Some redeem_scr
        \<and> normal_swap_checks L E data redeem_scr expected = None
        \<longrightarrow> q_expectedAmount data \<le> expected
            \<and> q_timeoutBlockHeight data - ns_local_height E < 144)
   \<and> (ns_response E = Some data \<and> q_redeemScript data = Some redeem_scr
        \<and> normal_swap_checks L E data redeem_scr expected = None
        \<and> funding_tx L E \<lparr> o_address = q_address data, o_value = q_expectedAmount data \<rparr>
              expected tx = Inr tx1
        \<and> \<not> ns_broadcast_raises E
        \<longrightarrow> fst (normal_swap L E M ln_amt expected tx) = Inr (tx_txid L tx1)
            \<and> broadcasts (snd (normal_swap L E M ln_amt expected tx))
                = broadcasts M @ [BroadcastTx tx1]
            \<and> swaps_by_lockup_address (snd (normal_swap L E M ln_amt expected tx))
                  (q_address data) = Some (next_ref M))"
proof (intro conjI impI)
  assume a: "ns_response E = Some data
     \<and> (q_expectedAmount data > expected
          \<or> q_timeoutBlockHeight data - ns_local_height E \<ge> 144)"
  show "\<exists>e. normal_swap L E M ln_amt expected tx = (Inl e, M)"
  proof (cases "q_redeemScript data")
    case None
    with a show ?thesis by (simp add: normal_swap_def)
  next
    case (Some redeem_scr)
    from a have "normal_swap_checks L E data redeem_scr expected \<noteq> None"
      by (intro normal_swap_checks_amount) blast
    then obtain e where "normal_swap_checks L E data redeem_scr expected = Some e"
      by auto
    with a Some have "normal_swap L E M ln_amt expected tx = (Inl e, M)"
      by (intro normal_swap_rejects) auto
    then show ?thesis by (intro exI[of _ e])
  qed
next
  assume a: "ns_response E = Some data \<and> q_redeemScript data = Some redeem_scr
        \<and> normal_swap_checks L E data redeem_scr expected = None"
  with normal_swap_checks_amount[of expected data E L redeem_scr]
  have "\<not> (q_expectedAmount data > expected
          \<or> q_timeoutBlockHeight data - ns_local_height E \<ge> 144)"
    by auto
  then show "q_expectedAmount data \<le> expected"
    and "q_timeoutBlockHeight data - ns_local_height E < 144"
    by simp_all
next
  assume a: "ns_response E = Some data \<and> q_redeemScript data = Some redeem_scr
        \<and> normal_swap_checks L E data redeem_scr expected = None
        \<and> funding_tx L E \<lparr> o_address = q_address data, o_value = q_expectedAmount data \<rparr>
              expected tx = Inr tx1
        \<and> \<not> ns_broadcast_raises E"
  then have h: "ns_response E = Some data" "q_redeemScript data = Some redeem_scr"
      "normal_swap_checks L E data redeem_scr expected = None"
      "funding_tx L E \<lparr> o_address = q_address data, o_value = q_expectedAmount data \<rparr>
              expected tx = Inr tx1"
      "\<not> ns_broadcast_raises E"
    by simp_all
  from normal_swap_accepts[OF h, of M ln_amt]
  show "fst (normal_swap L E M ln_amt expected tx) = Inr (tx_txid L tx1)"
    and "broadcasts (snd (normal_swap L E M ln_amt expected tx)) = broadcasts M @ [BroadcastTx tx1]"
    and "swaps_by_lockup_address (snd (normal_swap L E M ln_amt expected tx)) (q_address data)
           = Some (next_ref M)"
    by simp_all
qed

lemma forward_tokens_nth:
  "forward_tokens lock_bytes ! Suc 0 = Push (replicate 20 3)"
  "forward_tokens lock_bytes ! 6 = Push lock_bytes"
  "forward_tokens lock_bytes ! 9 = Push (replicate 33 4)"
  by (simp_all add: forward_tokens_def)

lemma demo_checks_eval:
  "normal_swap_checks demo_swap_lib demo_swap_env demo_quote (forward_script [0x10, 0x01]) 50000
     = None"
  "normal_swap_checks demo_swap_lib dear_quote_env dear_quote (forward_script [0x10, 0x01]) 50000
     = Some (CheckFailed ''fswap check failed: onchain_amount is more than what we estimated'')"
  "normal_swap_checks demo_swap_lib far_quote_env far_quote (forward_script [0x90, 0x01]) 50000
     = Some (CheckFailed ''fswap check failed: locktime too far in future'')"
  by (simp_all add: normal_swap_checks_def match_script_against_template_def
        demo_swap_lib_sel demo_GetOp_forward_script forward_tokens_match
        hex_forward_script demo_swap_env_def dear_quote_env_def far_quote_env_def demo_quote_def
        dear_quote_def far_quote_def forward_tokens_nth)

text \<open>
  C6 on a quote that is too dear, one whose locktime is too far, and one that is accepted.
\<close>

theorem forward_swap_rejects_bad_quote_witness:
  "ns_response dear_quote_env = Some dear_quote \<and> q_expectedAmount dear_quote > 50000
   \<and> normal_swap demo_swap_lib dear_quote_env empty_manager 49000 50000 None
       = (Inl (CheckFailed ''fswap check failed: onchain_amount is more than what we estimated''),
          empty_manager)
   \<and> ns_response far_quote_env = Some far_quote
   \<and> q_timeoutBlockHeight far_quote - ns_local_height far_quote_env \<ge> 144
   \<and> normal_swap demo_swap_lib far_quote_env empty_manager 49000 50000 None
       = (Inl (CheckFailed ''fswap check failed: locktime too far in future''), empty_manager)
   \<and> ns_response demo_swap_env = Some demo_quote
   \<and> q_redeemScript demo_quote = Some (forward_script [0x10, 0x01])
   \<and> normal_swap_checks demo_swap_lib demo_swap_env demo_quote (forward_script [0x10, 0x01])
         50000 = None
   \<and> q_expectedAmount demo_quote \<le> 50000
   \<and> q_timeoutBlockHeight demo_quote - ns_local_height demo_swap_env < 144
   \<and> length (broadcasts (snd (normal_swap demo_swap_lib demo_swap_env empty_manager 49000 50000
                                   None))) = 1
   \<and> swaps_by_lockup_address
         (snd (normal_swap demo_swap_lib demo_swap_env empty_manager 49000 50000 None))
         ''p2wsh:a914'' = Some 1"
proof -
  note T = forward_swap_rejects_bad_quote
             [where L = demo_swap_lib and M = empty_manager and ln_amt = 49000
                and expected = 50000 and tx = None]
  have d1: "ns_response dear_quote_env = Some dear_quote"
    by (simp add: dear_quote_env_def)
  have d2: "q_expectedAmount dear_quote > 50000"
    by (simp add: dear_quote_def)
  have d3: "q_redeemScript dear_quote = Some (forward_script [0x10, 0x01])"
    by (simp add: dear_quote_def demo_quote_def)
  from T [where E = dear_quote_env and data = dear_quote] d1 d2
  obtain e1 where e1: "normal_swap demo_swap_lib dear_quote_env empty_manager 49000 50000 None
                         = (Inl e1, empty_manager)"
    by blast
  have "fst (normal_swap demo_swap_lib dear_quote_env empty_manager 49000 50000 None)
          = Inl (CheckFailed ''fswap check failed: onchain_amount is more than what we estimated'')"
    by (simp add: normal_swap_rejects[OF demo_checks_eval(2) d1 d3])
  with e1 have r1: "normal_swap demo_swap_lib dear_quote_env empty_manager 49000 50000 None
       = (Inl (CheckFailed ''fswap check failed: onchain_amount is more than what we estimated''),
          empty_manager)"
    by simp
  have f1: "ns_response far_quote_env = Some far_quote"
    by (simp add: far_quote_env_def)
  have f2: "q_timeoutBlockHeight far_quote - ns_local_height far_quote_env \<ge> 144"
    by (simp add: far_quote_def far_quote_env_def demo_swap_env_def)
  have f3: "q_redeemScript far_quote = Some (forward_script [0x90, 0x01])"
    by (simp add: far_quote_def)
  from T [where E = far_quote_env and data = far_quote] f1 f2
  obtain e2 where e2: "normal_swap demo_swap_lib far_quote_env empty_manager 49000 50000 None
                         = (Inl e2, empty_manager)"
    by blast
  have "fst (normal_swap demo_swap_lib far_quote_env empty_manager 49000 50000 None)
          = Inl (CheckFailed ''fswap check failed: locktime too far in future'')"
    by (simp add: normal_swap_rejects[OF demo_checks_eval(3) f1 f3])
  with e2 have r2: "normal_swap demo_swap_lib far_quote_env empty_manager 49000 50000 None
       = (Inl (CheckFailed ''fswap check failed: locktime too far in future''), empty_manager)"
    by simp
  have g1: "ns_response demo_swap_env = Some demo_quote"
    by (simp add: demo_swap_env_def)
  have g2: "q_redeemScript demo_quote = Some (forward_script [0x10, 0x01])"
    by (simp add: demo_quote_def)
  note g3 = demo_checks_eval(1)
  have g4: "funding_tx demo_swap_lib demo_swap_env
              \<lparr> o_address = q_address demo_quote, o_value = q_expectedAmount demo_quote \<rparr>
              50000 None
            = Inr \<lparr> tx_inputs = [], tx_outputs = [\<lparr> o_address = ''p2wsh:a914'', o_value = 50000 \<rparr>],
                    tx_version = 2, tx_locktime = 0, tx_rbf = True \<rparr>"
    by (simp add: funding_tx_def demo_swap_env_def demo_quote_def)
  have g5: "\<not> ns_broadcast_raises demo_swap_env"
    by (simp add: demo_swap_env_def)
  have addr: "q_address demo_quote = ''p2wsh:a914''" and nr: "next_ref empty_manager = 1"
    and b0: "broadcasts empty_manager = []"
    by (simp_all add: demo_quote_def empty_manager_def)
  from T [where E = demo_swap_env and data = demo_quote
            and redeem_scr = "forward_script [0x10, 0x01]"] g1 g2 g3
  have lim: "q_expectedAmount demo_quote \<le> 50000
      \<and> q_timeoutBlockHeight demo_quote - ns_local_height demo_swap_env < 144"
    by blast
  from T [where E = demo_swap_env and data = demo_quote
            and redeem_scr = "forward_script [0x10, 0x01]", OF] g1 g2 g3 g4 g5
  have acc: "length (broadcasts (snd (normal_swap demo_swap_lib demo_swap_env empty_manager
                                        49000 50000 None))) = 1
      \<and> swaps_by_lockup_address
            (snd (normal_swap demo_swap_lib demo_swap_env empty_manager 49000 50000 None))
            ''p2wsh:a914'' = Some 1"
    by (simp add: addr nr b0)
  from d1 d2 r1 f1 f2 r2 g1 g2 g3 lim acc show ?thesis
    by (intro conjI) simp_all
qed



end
